theory Spec2Isabelle
  imports Main
begin

section \<open>The documents slice of the Redux store (store/slices/documentSlice.ts)\<close>

text \<open>
  The \<open>Document\<close> interface of services/api.ts. Optional members (\<open>document_type?\<close>,
  \<open>page_count?\<close>, \<open>word_count?\<close>) are options. The slice never computes with the numeric
  members; they are carried as integers. The member \<open>id\<close> is called \<open>doc_id\<close> here, and the
  other members carry the same prefix.
\<close>

record Document =
  doc_id :: string
  doc_filename :: string
  doc_original_filename :: string
  doc_file_size :: int
  doc_file_type :: string
  doc_document_type :: "string option"
  doc_status :: string
  doc_page_count :: "int option"
  doc_word_count :: "int option"
  doc_created_at :: string
  doc_updated_at :: string

text \<open>The \<open>DocumentList\<close> interface: the payload of \<open>fetchDocuments.fulfilled\<close>.\<close>

record DocumentList =
  dl_documents :: "Document list"
  dl_total :: int
  dl_skip :: int
  dl_limit :: int

text \<open>The interface \<open>DocumentState\<close>; \<open>null\<close> is \<open>None\<close>.\<close>

record DocumentState =
  documents :: "Document list"
  currentDocument :: "Document option"
  isLoading :: bool
  uploadProgress :: int
  error :: "string option"
  total :: int
  skip :: int
  limit :: int

definition initialState :: DocumentState where
  "initialState =
     \<lparr>documents = [], currentDocument = None, isLoading = False, uploadProgress = 0,
      error = None, total = 0, skip = 0, limit = 20\<rparr>"

text \<open>
  The actions the slice reacts to: its three reducers and the pending, fulfilled and
  rejected action of each of the four thunks. A rejected action carries the value given to
  \<open>rejectWithValue\<close>, which the reducer casts to a string. Every other action of the store
  (\<open>OtherAction\<close>) leaves the slice's state as it is.
\<close>

datatype DocumentAction =
    ClearError
  | SetUploadProgress int
  | ClearCurrentDocument
  | UploadDocumentPending
  | UploadDocumentFulfilled Document
  | UploadDocumentRejected string
  | FetchDocumentsPending
  | FetchDocumentsFulfilled DocumentList
  | FetchDocumentsRejected string
  | FetchDocumentPending
  | FetchDocumentFulfilled Document
  | FetchDocumentRejected string
  | DeleteDocumentPending
  | DeleteDocumentFulfilled string
  | DeleteDocumentRejected string
  | OtherAction

text \<open>
  The reducer, one equation per \<open>addCase\<close>, the assignments in the order of the source.
  \<open>unshift\<close> puts the new entry in front; \<open>state.currentDocument?.id === action.payload\<close>
  is false when \<open>currentDocument\<close> is \<open>null\<close>.
\<close>

fun documentSlice :: "DocumentState \<Rightarrow> DocumentAction \<Rightarrow> DocumentState" where
  "documentSlice state ClearError = state\<lparr>error := None\<rparr>"
| "documentSlice state (SetUploadProgress payload) = state\<lparr>uploadProgress := payload\<rparr>"
| "documentSlice state ClearCurrentDocument = state\<lparr>currentDocument := None\<rparr>"
| "documentSlice state UploadDocumentPending =
     state\<lparr>isLoading := True, error := None, uploadProgress := 0\<rparr>"
| "documentSlice state (UploadDocumentFulfilled payload) =
     state\<lparr>isLoading := False, documents := payload # documents state,
           uploadProgress := 100, error := None\<rparr>"
| "documentSlice state (UploadDocumentRejected payload) =
     state\<lparr>isLoading := False, error := Some payload, uploadProgress := 0\<rparr>"
| "documentSlice state FetchDocumentsPending = state\<lparr>isLoading := True, error := None\<rparr>"
| "documentSlice state (FetchDocumentsFulfilled payload) =
     state\<lparr>isLoading := False, documents := dl_documents payload, total := dl_total payload,
           skip := dl_skip payload, limit := dl_limit payload, error := None\<rparr>"
| "documentSlice state (FetchDocumentsRejected payload) =
     state\<lparr>isLoading := False, error := Some payload\<rparr>"
| "documentSlice state FetchDocumentPending = state\<lparr>isLoading := True, error := None\<rparr>"
| "documentSlice state (FetchDocumentFulfilled payload) =
     state\<lparr>isLoading := False, currentDocument := Some payload, error := None\<rparr>"
| "documentSlice state (FetchDocumentRejected payload) =
     state\<lparr>isLoading := False, error := Some payload\<rparr>"
| "documentSlice state DeleteDocumentPending = state\<lparr>isLoading := True, error := None\<rparr>"
| "documentSlice state (DeleteDocumentFulfilled payload) =
     state\<lparr>isLoading := False,
           documents := filter (\<lambda>doc. doc_id doc \<noteq> payload) (documents state),
           currentDocument :=
             (case currentDocument state of
                None \<Rightarrow> None
              | Some cur \<Rightarrow> if doc_id cur = payload then None else Some cur),
           error := None\<rparr>"
| "documentSlice state (DeleteDocumentRejected payload) =
     state\<lparr>isLoading := False, error := Some payload\<rparr>"
| "documentSlice state OtherAction = state"

text \<open>The state of the slice after a sequence of actions, dispatched from the left.\<close>

definition dispatchAll :: "DocumentAction list \<Rightarrow> DocumentState" where
  "dispatchAll actions = foldl documentSlice initialState actions"

text \<open>The pending and the rejected actions of the four thunks.\<close>

fun isPending :: "DocumentAction \<Rightarrow> bool" where
  "isPending UploadDocumentPending = True"
| "isPending FetchDocumentsPending = True"
| "isPending FetchDocumentPending = True"
| "isPending DeleteDocumentPending = True"
| "isPending _ = False"

fun isRejected :: "DocumentAction \<Rightarrow> bool" where
  "isRejected (UploadDocumentRejected _) = True"
| "isRejected (FetchDocumentsRejected _) = True"
| "isRejected (FetchDocumentRejected _) = True"
| "isRejected (DeleteDocumentRejected _) = True"
| "isRejected _ = False"

text \<open>Two documents and a state holding them, used to run the reducer on.\<close>

definition docA :: Document where
  "docA = \<lparr>doc_id = ''a'', doc_filename = ''a.pdf'', doc_original_filename = ''lease.pdf'',
           doc_file_size = 10, doc_file_type = ''pdf'', doc_document_type = None,
           doc_status = ''uploaded'', doc_page_count = None, doc_word_count = None,
           doc_created_at = ''t0'', doc_updated_at = ''t0''\<rparr>"

definition docB :: Document where
  "docB = docA\<lparr>doc_id := ''b'', doc_filename := ''b.pdf''\<rparr>"

definition busyState :: DocumentState where
  "busyState = \<lparr>documents = [docA, docB, docA], currentDocument = Some docA, isLoading = True,
                uploadProgress = 100, error = Some ''stale'', total = 3, skip = 0, limit = 20\<rparr>"

section \<open>The shared axios client (services/api.ts)\<close>

text \<open>
  The browser state the two interceptors touch: \<open>localStorage\<close> (\<open>getItem\<close> of a key
  that is not stored gives \<open>null\<close>, here \<open>None\<close>) and \<open>window.location.href\<close>.
\<close>

record Browser =
  localStorage :: "string \<rightharpoonup> string"
  location_href :: string

text \<open>
  A request configuration. The interceptor touches its headers only; all other members
  (url, method, data, params and so on) are the extension part of the record.
\<close>

record AxiosRequestConfig =
  headers :: "string \<rightharpoonup> string"

record AxiosResponse =
  status :: int

text \<open>An axios error; \<open>response\<close> is undefined when no reply arrived (a network error).\<close>

record AxiosError =
  response :: "AxiosResponse option"

text \<open>
  The request interceptor. \<open>if (token)\<close> is the truth test of JavaScript: \<open>null\<close> and
  the empty string are both false.
\<close>

definition requestInterceptor ::
  "Browser \<Rightarrow> 'a AxiosRequestConfig_scheme \<Rightarrow> 'a AxiosRequestConfig_scheme" where
  "requestInterceptor browser config =
     (case localStorage browser ''token'' of
        None \<Rightarrow> config
      | Some token \<Rightarrow>
          if token \<noteq> []
          then config\<lparr>headers := (headers config)(''Authorization'' \<mapsto> ''Bearer '' @ token)\<rparr>
          else config)"

text \<open>
  The error handler of the response interceptor. It returns the browser state it leaves
  behind; the promise it returns is rejected with the error it was given.
\<close>

definition responseErrorInterceptor :: "AxiosError \<Rightarrow> Browser \<Rightarrow> AxiosError \<times> Browser" where
  "responseErrorInterceptor err browser =
     (if (case response err of None \<Rightarrow> False | Some r \<Rightarrow> status r = 401)
      then (err, browser\<lparr>localStorage := (localStorage browser)(''token'' := None),
                         location_href := ''/login''\<rparr>)
      else (err, browser))"

text \<open>
  The instance is created without a \<open>validateStatus\<close> of its own and no call passes one,
  so axios settles a reply by its default: a status from 200 to 299 resolves, through the
  first handler of the response interceptor (the identity); every other status rejects,
  through its error handler.
\<close>

definition validateStatus :: "int \<Rightarrow> bool" where
  "validateStatus s = (200 \<le> s \<and> s < 300)"

definition settle :: "AxiosResponse \<Rightarrow> Browser \<Rightarrow> (AxiosError + AxiosResponse) \<times> Browser" where
  "settle r browser =
     (if validateStatus (status r) then (Inr r, browser)
      else (case responseErrorInterceptor \<lparr>response = Some r\<rparr> browser of
              (err, browser') \<Rightarrow> (Inl err, browser')))"

text \<open>Browser states, a request and replies to run the interceptors on.\<close>

definition signedIn :: Browser where
  "signedIn = \<lparr>localStorage = [''token'' \<mapsto> ''abc'', ''theme'' \<mapsto> ''dark''],
               location_href = ''/dashboard''\<rparr>"

definition signedOut :: Browser where
  "signedOut = \<lparr>localStorage = Map.empty, location_href = ''/login''\<rparr>"

definition jsonRequest :: AxiosRequestConfig where
  "jsonRequest = \<lparr>headers = [''Content-Type'' \<mapsto> ''application/json'']\<rparr>"

definition reply :: "int \<Rightarrow> AxiosResponse" where
  "reply s = \<lparr>status = s\<rparr>"

section \<open>The relational schema (database/init.sql)\<close>

text \<open>
  Column types: a UUID is an opaque identifier, a TIMESTAMP a point on a discrete clock,
  JSONB its text, DECIMAL(5,4) and DECIMAL(8,3) a scaled integer. Every column of a stored
  row is an option, \<open>None\<close> being the SQL NULL; NOT NULL is a constraint checked by the
  statements below, as the engine does. The model takes values that fit the length of
  their VARCHAR column and the range of INTEGER. Columns carry the initial of their table,
  since several tables have columns of the same name.
\<close>

type_synonym uuid = string
type_synonym timestamp = nat
type_synonym jsonb = string
type_synonym decimal = int

record user_row =
  u_id :: "uuid option"
  u_email :: "string option"
  u_full_name :: "string option"
  u_hashed_password :: "string option"
  u_is_active :: "bool option"
  u_is_verified :: "bool option"
  u_firebase_uid :: "string option"
  u_created_at :: "timestamp option"
  u_updated_at :: "timestamp option"
  u_last_login :: "timestamp option"
  u_company :: "string option"
  u_role :: "string option"
  u_preferred_language :: "string option"
  u_documents_processed :: "int option"
  u_api_calls_count :: "int option"

record document_row =
  d_id :: "uuid option"
  d_user_id :: "uuid option"
  d_filename :: "string option"
  d_original_filename :: "string option"
  d_file_path :: "string option"
  d_file_size :: "int option"
  d_file_type :: "string option"
  d_mime_type :: "string option"
  d_extracted_text :: "string option"
  d_page_count :: "int option"
  d_word_count :: "int option"
  d_status :: "string option"
  d_processing_started_at :: "timestamp option"
  d_processing_completed_at :: "timestamp option"
  d_error_message :: "string option"
  d_document_type :: "string option"
  d_confidence_score :: "decimal option"
  d_language :: "string option"
  d_is_sensitive :: "bool option"
  d_retention_days :: "int option"
  d_created_at :: "timestamp option"
  d_updated_at :: "timestamp option"
  d_expires_at :: "timestamp option"

record analysis_row =
  a_id :: "uuid option"
  a_user_id :: "uuid option"
  a_document_id :: "uuid option"
  a_analysis_type :: "string option"
  a_request_data :: "jsonb option"
  a_model_used :: "string option"
  a_model_version :: "string option"
  a_prompt_template :: "string option"
  a_summary :: "string option"
  a_simplified_explanation :: "string option"
  a_key_points :: "jsonb option"
  a_risk_assessment :: "jsonb option"
  a_legal_implications :: "jsonb option"
  a_clauses_analyzed :: "jsonb option"
  a_problematic_clauses :: "jsonb option"
  a_question :: "string option"
  a_answer :: "string option"
  a_confidence_score :: "decimal option"
  a_source_language :: "string option"
  a_target_language :: "string option"
  a_processing_time_seconds :: "decimal option"
  a_token_count_input :: "int option"
  a_token_count_output :: "int option"
  a_status :: "string option"
  a_quality_score :: "decimal option"
  a_human_reviewed :: "bool option"
  a_user_rating :: "int option"
  a_user_feedback :: "string option"
  a_created_at :: "timestamp option"
  a_updated_at :: "timestamp option"
  a_completed_at :: "timestamp option"

text \<open>
  The tables \<open>users\<close>, \<open>documents\<close> and \<open>analyses\<close>; a table is the list of its rows.
  The fourth table, \<open>legal_templates\<close>, is a catalog that no foreign key touches; it is
  left out.
\<close>

record database =
  users_table :: "user_row list"
  documents_table :: "document_row list"
  analyses_table :: "analysis_row list"

definition empty_database :: database where
  "empty_database = \<lparr>users_table = [], documents_table = [], analyses_table = []\<rparr>"

datatype sql_error =
    not_null_violation string
  | check_violation string
  | unique_violation string
  | foreign_key_violation string

subsection \<open>Column defaults\<close>

text \<open>
  The row an INSERT starts from: every column at its DEFAULT, NULL where none is declared.
  \<open>gen\<close> is the value \<open>uuid_generate_v4()\<close> yields for the statement and \<open>now\<close> is
  its CURRENT_TIMESTAMP.
\<close>

definition default_user :: "uuid \<Rightarrow> timestamp \<Rightarrow> user_row" where
  "default_user gen now =
     \<lparr>u_id = Some gen, u_email = None, u_full_name = None, u_hashed_password = None,
      u_is_active = Some True, u_is_verified = Some False, u_firebase_uid = None,
      u_created_at = Some now, u_updated_at = Some now, u_last_login = None,
      u_company = None, u_role = None, u_preferred_language = Some ''en'',
      u_documents_processed = Some 0, u_api_calls_count = Some 0\<rparr>"

definition default_document :: "uuid \<Rightarrow> timestamp \<Rightarrow> document_row" where
  "default_document gen now =
     \<lparr>d_id = Some gen, d_user_id = None, d_filename = None, d_original_filename = None,
      d_file_path = None, d_file_size = None, d_file_type = None, d_mime_type = None,
      d_extracted_text = None, d_page_count = None, d_word_count = None,
      d_status = Some ''uploaded'', d_processing_started_at = None,
      d_processing_completed_at = None, d_error_message = None, d_document_type = None,
      d_confidence_score = None, d_language = Some ''en'', d_is_sensitive = Some True,
      d_retention_days = Some 30, d_created_at = Some now, d_updated_at = Some now,
      d_expires_at = None\<rparr>"

definition default_analysis :: "uuid \<Rightarrow> timestamp \<Rightarrow> analysis_row" where
  "default_analysis gen now =
     \<lparr>a_id = Some gen, a_user_id = None, a_document_id = None, a_analysis_type = None,
      a_request_data = None, a_model_used = None, a_model_version = None,
      a_prompt_template = None, a_summary = None, a_simplified_explanation = None,
      a_key_points = None, a_risk_assessment = None, a_legal_implications = None,
      a_clauses_analyzed = None, a_problematic_clauses = None, a_question = None,
      a_answer = None, a_confidence_score = None, a_source_language = Some ''en'',
      a_target_language = Some ''en'', a_processing_time_seconds = None,
      a_token_count_input = None, a_token_count_output = None, a_status = Some ''pending'',
      a_quality_score = None, a_human_reviewed = Some False, a_user_rating = None,
      a_user_feedback = None, a_created_at = Some now, a_updated_at = Some now,
      a_completed_at = None\<rparr>"

subsection \<open>Constraints\<close>

text \<open>
  SQL comparisons and AND are three-valued: the value is unknown (\<open>None\<close>) when an operand
  is NULL, except that false AND unknown is false. A CHECK constraint rejects a row only
  when its expression is false.
\<close>

definition sql_ge :: "int option \<Rightarrow> int option \<Rightarrow> bool option" where
  "sql_ge x y = (case (x, y) of (Some a, Some b) \<Rightarrow> Some (a \<ge> b) | _ \<Rightarrow> None)"

definition sql_le :: "int option \<Rightarrow> int option \<Rightarrow> bool option" where
  "sql_le x y = (case (x, y) of (Some a, Some b) \<Rightarrow> Some (a \<le> b) | _ \<Rightarrow> None)"

definition sql_and :: "bool option \<Rightarrow> bool option \<Rightarrow> bool option" where
  "sql_and p q =
     (if p = Some False \<or> q = Some False then Some False
      else if p = Some True \<and> q = Some True then Some True
      else None)"

definition check_passes :: "bool option \<Rightarrow> bool" where
  "check_passes v = (v \<noteq> Some False)"

text \<open>\<^verbatim>\<open>user_rating INTEGER CHECK (user_rating >= 1 AND user_rating <= 5)\<close>\<close>

definition analyses_user_rating_check :: "analysis_row \<Rightarrow> bool" where
  "analyses_user_rating_check r =
     check_passes (sql_and (sql_ge (a_user_rating r) (Some 1)) (sql_le (a_user_rating r) (Some 5)))"

text \<open>The NOT NULL columns of each table, the primary key among them.\<close>

definition user_not_null :: "user_row \<Rightarrow> bool" where
  "user_not_null r = (u_id r \<noteq> None \<and> u_email r \<noteq> None \<and> u_full_name r \<noteq> None)"

definition document_not_null :: "document_row \<Rightarrow> bool" where
  "document_not_null r =
     (d_id r \<noteq> None \<and> d_user_id r \<noteq> None \<and> d_filename r \<noteq> None
      \<and> d_original_filename r \<noteq> None \<and> d_file_path r \<noteq> None \<and> d_file_size r \<noteq> None
      \<and> d_file_type r \<noteq> None \<and> d_mime_type r \<noteq> None)"

definition analysis_not_null :: "analysis_row \<Rightarrow> bool" where
  "analysis_not_null r =
     (a_id r \<noteq> None \<and> a_user_id r \<noteq> None \<and> a_document_id r \<noteq> None
      \<and> a_analysis_type r \<noteq> None \<and> a_model_used r \<noteq> None)"

text \<open>PRIMARY KEY and UNIQUE: no two rows agree on a value that is not NULL.\<close>

definition unique_column :: "('r \<Rightarrow> 'v option) \<Rightarrow> 'r list \<Rightarrow> bool" where
  "unique_column col rows = distinct (filter (\<lambda>v. v \<noteq> None) (map col rows))"

text \<open>
  REFERENCES: a value that is not NULL names the key of a row of the referenced table.
  \<open>refers\<close> is the match a cascade follows: a NULL refers to no row.
\<close>

definition foreign_key :: "uuid option \<Rightarrow> uuid option list \<Rightarrow> bool" where
  "foreign_key v keys = (v = None \<or> v \<in> set keys)"

definition refers :: "uuid option \<Rightarrow> uuid option list \<Rightarrow> bool" where
  "refers v keys = (v \<noteq> None \<and> v \<in> set keys)"

definition user_keys :: "database \<Rightarrow> uuid option list" where
  "user_keys db = map u_id (users_table db)"

definition document_keys :: "database \<Rightarrow> uuid option list" where
  "document_keys db = map d_id (documents_table db)"

subsection \<open>INSERT\<close>

text \<open>
  An INSERT of one row: \<open>supplied\<close> stores the values the statement names into the row of
  defaults, so a column the statement leaves out keeps its default. The row is stored when
  every constraint accepts it; otherwise the statement fails and the tables stay as they
  were.
\<close>

definition insert_user ::
  "uuid \<Rightarrow> timestamp \<Rightarrow> (user_row \<Rightarrow> user_row) \<Rightarrow> database \<Rightarrow> sql_error + database" where
  "insert_user gen now supplied db =
     (let r = supplied (default_user gen now); rows = users_table db @ [r] in
      if \<not> user_not_null r then Inl (not_null_violation ''users'')
      else if \<not> unique_column u_id rows then Inl (unique_violation ''users_pkey'')
      else if \<not> unique_column u_email rows then Inl (unique_violation ''users_email_key'')
      else if \<not> unique_column u_firebase_uid rows
        then Inl (unique_violation ''users_firebase_uid_key'')
      else Inr (db\<lparr>users_table := rows\<rparr>))"

definition insert_document ::
  "uuid \<Rightarrow> timestamp \<Rightarrow> (document_row \<Rightarrow> document_row) \<Rightarrow> database \<Rightarrow> sql_error + database"
  where
  "insert_document gen now supplied db =
     (let r = supplied (default_document gen now); rows = documents_table db @ [r] in
      if \<not> document_not_null r then Inl (not_null_violation ''documents'')
      else if \<not> unique_column d_id rows then Inl (unique_violation ''documents_pkey'')
      else if \<not> foreign_key (d_user_id r) (user_keys db)
        then Inl (foreign_key_violation ''documents_user_id_fkey'')
      else Inr (db\<lparr>documents_table := rows\<rparr>))"

definition insert_analysis ::
  "uuid \<Rightarrow> timestamp \<Rightarrow> (analysis_row \<Rightarrow> analysis_row) \<Rightarrow> database \<Rightarrow> sql_error + database"
  where
  "insert_analysis gen now supplied db =
     (let r = supplied (default_analysis gen now); rows = analyses_table db @ [r] in
      if \<not> analysis_not_null r then Inl (not_null_violation ''analyses'')
      else if \<not> analyses_user_rating_check r
        then Inl (check_violation ''analyses_user_rating_check'')
      else if \<not> unique_column a_id rows then Inl (unique_violation ''analyses_pkey'')
      else if \<not> foreign_key (a_user_id r) (user_keys db)
        then Inl (foreign_key_violation ''analyses_user_id_fkey'')
      else if \<not> foreign_key (a_document_id r) (document_keys db)
        then Inl (foreign_key_violation ''analyses_document_id_fkey'')
      else Inr (db\<lparr>analyses_table := rows\<rparr>))"

subsection \<open>UPDATE and the \<open>updated_at\<close> triggers\<close>

text \<open>
  \<^verbatim>\<open>UPDATE t SET ... WHERE ...\<close>: \<open>wher\<close> selects the rows and \<open>setter\<close> computes the
  new row from the old one. The trigger \<open>update_updated_at_column\<close> runs BEFORE UPDATE FOR
  EACH ROW and overwrites \<open>updated_at\<close> of the new row with the current time. The
  constraints are then checked on the new rows. No foreign key declares an ON UPDATE
  action, so changing a key that rows of another table refer to fails.
\<close>

definition update_users ::
  "timestamp \<Rightarrow> (user_row \<Rightarrow> bool) \<Rightarrow> (user_row \<Rightarrow> user_row) \<Rightarrow> database \<Rightarrow> sql_error + database"
  where
  "update_users now wher setter db =
     (let changed = map (\<lambda>r. (setter r)\<lparr>u_updated_at := Some now\<rparr>) (filter wher (users_table db));
          rows = map (\<lambda>r. if wher r then (setter r)\<lparr>u_updated_at := Some now\<rparr> else r)
                   (users_table db) in
      if \<not> list_all user_not_null changed then Inl (not_null_violation ''users'')
      else if \<not> unique_column u_id rows then Inl (unique_violation ''users_pkey'')
      else if \<not> unique_column u_email rows then Inl (unique_violation ''users_email_key'')
      else if \<not> unique_column u_firebase_uid rows
        then Inl (unique_violation ''users_firebase_uid_key'')
      else if \<not> list_all (\<lambda>d. foreign_key (d_user_id d) (map u_id rows)) (documents_table db)
        then Inl (foreign_key_violation ''documents_user_id_fkey'')
      else if \<not> list_all (\<lambda>a. foreign_key (a_user_id a) (map u_id rows)) (analyses_table db)
        then Inl (foreign_key_violation ''analyses_user_id_fkey'')
      else Inr (db\<lparr>users_table := rows\<rparr>))"

definition update_documents ::
  "timestamp \<Rightarrow> (document_row \<Rightarrow> bool) \<Rightarrow> (document_row \<Rightarrow> document_row) \<Rightarrow> database
     \<Rightarrow> sql_error + database" where
  "update_documents now wher setter db =
     (let changed = map (\<lambda>r. (setter r)\<lparr>d_updated_at := Some now\<rparr>)
                      (filter wher (documents_table db));
          rows = map (\<lambda>r. if wher r then (setter r)\<lparr>d_updated_at := Some now\<rparr> else r)
                   (documents_table db) in
      if \<not> list_all document_not_null changed then Inl (not_null_violation ''documents'')
      else if \<not> unique_column d_id rows then Inl (unique_violation ''documents_pkey'')
      else if \<not> list_all (\<lambda>r. foreign_key (d_user_id r) (user_keys db)) changed
        then Inl (foreign_key_violation ''documents_user_id_fkey'')
      else if \<not> list_all (\<lambda>a. foreign_key (a_document_id a) (map d_id rows)) (analyses_table db)
        then Inl (foreign_key_violation ''analyses_document_id_fkey'')
      else Inr (db\<lparr>documents_table := rows\<rparr>))"

definition update_analyses ::
  "timestamp \<Rightarrow> (analysis_row \<Rightarrow> bool) \<Rightarrow> (analysis_row \<Rightarrow> analysis_row) \<Rightarrow> database
     \<Rightarrow> sql_error + database" where
  "update_analyses now wher setter db =
     (let changed = map (\<lambda>r. (setter r)\<lparr>a_updated_at := Some now\<rparr>)
                      (filter wher (analyses_table db));
          rows = map (\<lambda>r. if wher r then (setter r)\<lparr>a_updated_at := Some now\<rparr> else r)
                   (analyses_table db) in
      if \<not> list_all analysis_not_null changed then Inl (not_null_violation ''analyses'')
      else if \<not> list_all analyses_user_rating_check changed
        then Inl (check_violation ''analyses_user_rating_check'')
      else if \<not> unique_column a_id rows then Inl (unique_violation ''analyses_pkey'')
      else if \<not> list_all (\<lambda>r. foreign_key (a_user_id r) (user_keys db)) changed
        then Inl (foreign_key_violation ''analyses_user_id_fkey'')
      else if \<not> list_all (\<lambda>r. foreign_key (a_document_id r) (document_keys db)) changed
        then Inl (foreign_key_violation ''analyses_document_id_fkey'')
      else Inr (db\<lparr>analyses_table := rows\<rparr>))"

subsection \<open>DELETE and ON DELETE CASCADE\<close>

text \<open>
  \<^verbatim>\<open>DELETE FROM t WHERE ...\<close>. All three foreign keys are declared ON DELETE CASCADE:
  deleting a row deletes the rows that refer to it, and so on along the chain. No delete
  fails.
\<close>

definition delete_analyses :: "(analysis_row \<Rightarrow> bool) \<Rightarrow> database \<Rightarrow> database" where
  "delete_analyses wher db =
     db\<lparr>analyses_table := filter (\<lambda>a. \<not> wher a) (analyses_table db)\<rparr>"

text \<open>\<^verbatim>\<open>analyses.document_id REFERENCES documents(id) ON DELETE CASCADE\<close>\<close>

definition delete_documents :: "(document_row \<Rightarrow> bool) \<Rightarrow> database \<Rightarrow> database" where
  "delete_documents wher db =
     (let gone = map d_id (filter wher (documents_table db)) in
      delete_analyses (\<lambda>a. refers (a_document_id a) gone)
        (db\<lparr>documents_table := filter (\<lambda>d. \<not> wher d) (documents_table db)\<rparr>))"

text \<open>
  \<^verbatim>\<open>documents.user_id REFERENCES users(id) ON DELETE CASCADE\<close> and
  \<^verbatim>\<open>analyses.user_id REFERENCES users(id) ON DELETE CASCADE\<close>
\<close>

definition delete_users :: "(user_row \<Rightarrow> bool) \<Rightarrow> database \<Rightarrow> database" where
  "delete_users wher db =
     (let gone = map u_id (filter wher (users_table db)) in
      delete_analyses (\<lambda>a. refers (a_user_id a) gone)
        (delete_documents (\<lambda>d. refers (d_user_id d) gone)
           (db\<lparr>users_table := filter (\<lambda>u. \<not> wher u) (users_table db)\<rparr>)))"

subsection \<open>Statements and their execution\<close>

datatype statement =
    InsertUser uuid timestamp "user_row \<Rightarrow> user_row"
  | InsertDocument uuid timestamp "document_row \<Rightarrow> document_row"
  | InsertAnalysis uuid timestamp "analysis_row \<Rightarrow> analysis_row"
  | UpdateUsers timestamp "user_row \<Rightarrow> bool" "user_row \<Rightarrow> user_row"
  | UpdateDocuments timestamp "document_row \<Rightarrow> bool" "document_row \<Rightarrow> document_row"
  | UpdateAnalyses timestamp "analysis_row \<Rightarrow> bool" "analysis_row \<Rightarrow> analysis_row"
  | DeleteUsers "user_row \<Rightarrow> bool"
  | DeleteDocuments "document_row \<Rightarrow> bool"
  | DeleteAnalyses "analysis_row \<Rightarrow> bool"

text \<open>A failed statement reports its error and leaves the database as it was.\<close>

definition outcome :: "database \<Rightarrow> sql_error + database \<Rightarrow> sql_error option \<times> database" where
  "outcome db res = (case res of Inl e \<Rightarrow> (Some e, db) | Inr db' \<Rightarrow> (None, db'))"

fun execute :: "statement \<Rightarrow> database \<Rightarrow> sql_error option \<times> database" where
  "execute (InsertUser gen now supplied) db = outcome db (insert_user gen now supplied db)"
| "execute (InsertDocument gen now supplied) db =
     outcome db (insert_document gen now supplied db)"
| "execute (InsertAnalysis gen now supplied) db =
     outcome db (insert_analysis gen now supplied db)"
| "execute (UpdateUsers now wher setter) db = outcome db (update_users now wher setter db)"
| "execute (UpdateDocuments now wher setter) db =
     outcome db (update_documents now wher setter db)"
| "execute (UpdateAnalyses now wher setter) db =
     outcome db (update_analyses now wher setter db)"
| "execute (DeleteUsers wher) db = (None, delete_users wher db)"
| "execute (DeleteDocuments wher) db = (None, delete_documents wher db)"
| "execute (DeleteAnalyses wher) db = (None, delete_analyses wher db)"

text \<open>The database after a sequence of statements, started on the empty schema.\<close>

definition run :: "statement list \<Rightarrow> database" where
  "run stmts = foldl (\<lambda>db s. snd (execute s db)) empty_database stmts"

subsection \<open>Properties of the stored rows\<close>

text \<open>
  No orphan rows: the owner of every document is a stored user, and the owner and the
  document of every analysis are stored rows.
\<close>

definition references_intact :: "database \<Rightarrow> bool" where
  "references_intact db =
     (list_all (\<lambda>d. refers (d_user_id d) (user_keys db)) (documents_table db)
      \<and> list_all (\<lambda>a. refers (a_user_id a) (user_keys db)
                       \<and> refers (a_document_id a) (document_keys db)) (analyses_table db))"

text \<open>A rating is NULL or an integer from 1 to 5.\<close>

definition rating_in_range :: "analysis_row \<Rightarrow> bool" where
  "rating_in_range r =
     (case a_user_rating r of None \<Rightarrow> True | Some v \<Rightarrow> 1 \<le> v \<and> v \<le> 5)"

text \<open>The status values the specification lists for a document and for an analysis.\<close>

definition document_status_valid :: "document_row \<Rightarrow> bool" where
  "document_status_valid r =
     (d_status r = Some ''uploaded'' \<or> d_status r = Some ''processing''
      \<or> d_status r = Some ''completed'' \<or> d_status r = Some ''failed'')"

definition analysis_status_valid :: "analysis_row \<Rightarrow> bool" where
  "analysis_status_valid r =
     (a_status r = Some ''pending'' \<or> a_status r = Some ''completed''
      \<or> a_status r = Some ''failed'')"

text \<open>
  The statements that can store a status of a document, respectively of an analysis, with
  the condition that they store one of the listed values: an INSERT in its new row, an
  UPDATE in every selected row that held a listed value before.
\<close>

fun stores_valid_document_status :: "statement \<Rightarrow> bool" where
  "stores_valid_document_status (InsertDocument gen now supplied) =
     document_status_valid (supplied (default_document gen now))"
| "stores_valid_document_status (UpdateDocuments now wher setter) =
     (\<forall>r. wher r \<and> document_status_valid r \<longrightarrow> document_status_valid (setter r))"
| "stores_valid_document_status _ = True"

fun stores_valid_analysis_status :: "statement \<Rightarrow> bool" where
  "stores_valid_analysis_status (InsertAnalysis gen now supplied) =
     analysis_status_valid (supplied (default_analysis gen now))"
| "stores_valid_analysis_status (UpdateAnalyses now wher setter) =
     (\<forall>r. wher r \<and> analysis_status_valid r \<longrightarrow> analysis_status_valid (setter r))"
| "stores_valid_analysis_status _ = True"

text \<open>\<^verbatim>\<open>SET user_rating = ..., user_feedback = ...\<close>, the assignment of a feedback update.\<close>

definition set_feedback :: "int option \<Rightarrow> string option \<Rightarrow> analysis_row \<Rightarrow> analysis_row" where
  "set_feedback rating feedback r = r\<lparr>a_user_rating := rating, a_user_feedback := feedback\<rparr>"

subsection \<open>Example rows and statements\<close>

definition user_values :: "string \<Rightarrow> user_row \<Rightarrow> user_row" where
  "user_values email r = r\<lparr>u_email := Some email, u_full_name := Some ''A. User''\<rparr>"

definition document_values :: "uuid \<Rightarrow> document_row \<Rightarrow> document_row" where
  "document_values owner r =
     r\<lparr>d_user_id := Some owner, d_filename := Some ''f1.pdf'',
       d_original_filename := Some ''lease.pdf'', d_file_path := Some ''/uploads/f1.pdf'',
       d_file_size := Some 10240, d_file_type := Some ''pdf'',
       d_mime_type := Some ''application/pdf''\<rparr>"

definition analysis_values :: "uuid \<Rightarrow> uuid \<Rightarrow> analysis_row \<Rightarrow> analysis_row" where
  "analysis_values owner document r =
     r\<lparr>a_user_id := Some owner, a_document_id := Some document,
       a_analysis_type := Some ''risk_assessment'', a_model_used := Some ''gemini-pro''\<rparr>"

definition user1 :: user_row where
  "user1 = user_values ''one@example.org'' (default_user ''u1'' 0)"

definition user2 :: user_row where
  "user2 = user_values ''two@example.org'' (default_user ''u2'' 0)"

definition document1 :: document_row where
  "document1 = document_values ''u1'' (default_document ''d1'' 1)"

definition document2 :: document_row where
  "document2 = document_values ''u2'' (default_document ''d2'' 1)"

definition completed_analysis_values :: "analysis_row \<Rightarrow> analysis_row" where
  "completed_analysis_values r =
     (analysis_values ''u1'' ''d1'' r)
       \<lparr>a_status := Some ''completed'', a_summary := Some ''A lease.''\<rparr>"

definition analysis1 :: analysis_row where
  "analysis1 = completed_analysis_values (default_analysis ''a1'' 2)"

definition analysis2 :: analysis_row where
  "analysis2 = analysis_values ''u2'' ''d2'' (default_analysis ''a2'' 2)"

definition analysis3 :: analysis_row where
  "analysis3 = analysis_values ''u2'' ''d1'' (default_analysis ''a3'' 2)"

definition sample_database :: database where
  "sample_database =
     \<lparr>users_table = [user1, user2], documents_table = [document1, document2],
      analyses_table = [analysis1, analysis2, analysis3]\<rparr>"

definition sample_statements :: "statement list" where
  "sample_statements =
     [InsertUser ''u1'' 0 (user_values ''one@example.org''),
      InsertUser ''u2'' 0 (user_values ''two@example.org''),
      InsertDocument ''d1'' 1 (document_values ''u1''),
      InsertDocument ''d2'' 1 (document_values ''u2''),
      InsertAnalysis ''a1'' 2 completed_analysis_values,
      InsertAnalysis ''a2'' 2 (analysis_values ''u2'' ''d2''),
      InsertAnalysis ''a3'' 2 (analysis_values ''u2'' ''d1'')]"

definition is_user :: "uuid \<Rightarrow> user_row \<Rightarrow> bool" where
  "is_user i r = (u_id r = Some i)"

definition is_document :: "uuid \<Rightarrow> document_row \<Rightarrow> bool" where
  "is_document i r = (d_id r = Some i)"

definition is_analysis :: "uuid \<Rightarrow> analysis_row \<Rightarrow> bool" where
  "is_analysis i r = (a_id r = Some i)"

text \<open>Values an INSERT or UPDATE may name: a status outside the lists, a new summary.\<close>

definition archived_document_values :: "document_row \<Rightarrow> document_row" where
  "archived_document_values r = (document_values ''u1'' r)\<lparr>d_status := Some ''archived''\<rparr>"

definition archived_analysis_values :: "analysis_row \<Rightarrow> analysis_row" where
  "archived_analysis_values r = (analysis_values ''u2'' ''d2'' r)\<lparr>a_status := Some ''archived''\<rparr>"

definition set_summary :: "string \<Rightarrow> analysis_row \<Rightarrow> analysis_row" where
  "set_summary s r = r\<lparr>a_summary := Some s\<rparr>"

definition rated_analysis_values :: "int \<Rightarrow> analysis_row \<Rightarrow> analysis_row" where
  "rated_analysis_values v r = (analysis_values ''u1'' ''d1'' r)\<lparr>a_user_rating := Some v\<rparr>"

section \<open>The analysis request (specification, sections 4.2, 4.3 and 7)\<close>

text \<open>
  The taxonomy of section 7, as far as an analysis request on a document id meets it
  before any work is done: a resource that is missing or not owned.
\<close>

datatype http_error = NotFoundOrForbidden

definition http_status :: "http_error \<Rightarrow> nat" where
  "http_status e = (case e of NotFoundOrForbidden \<Rightarrow> 404)"

text \<open>
  Modelled from the spec: the document gateway of the backend, which is not among the
  sources. Section 4.3 gives it the operation get-by-id-scoped-to-owner; the rows are those
  of the \<open>documents\<close> table of database/init.sql.
\<close>

definition get_document_scoped_to_owner ::
  "uuid \<Rightarrow> uuid \<Rightarrow> database \<Rightarrow> document_row option" where
  "get_document_scoped_to_owner document_id owner db =
     find (\<lambda>d. d_id d = Some document_id \<and> d_user_id d = Some owner) (documents_table db)"

text \<open>
  Modelled from the spec: the handler of \<open>POST /analysis/analyze/{documentId}\<close> and of
  \<open>POST /analysis/question/{documentId}\<close>, which is not among the sources. Step 1 of
  section 4.2: load the document and fail with NotFound if it is absent or not owned by the
  caller. \<open>steps\<close> stands for steps 2 to 5 (template, external model, parsing, persisting),
  which run on the loaded document, return the answer and leave the database they wrote.
\<close>

definition analysis_request ::
  "(document_row \<Rightarrow> database \<Rightarrow> 'a \<times> database) \<Rightarrow> uuid \<Rightarrow> uuid \<Rightarrow> database
     \<Rightarrow> (http_error + 'a) \<times> database" where
  "analysis_request steps caller document_id db =
     (case get_document_scoped_to_owner document_id caller db of
        None \<Rightarrow> (Inl NotFoundOrForbidden, db)
      | Some d \<Rightarrow> (case steps d db of (answer, db') \<Rightarrow> (Inr answer, db')))"

text \<open>
  A stand-in for steps 2 to 5 that discloses the text and the owner of the document it is
  given and writes to the database, to run the handler on.
\<close>

definition disclosing_steps :: "document_row \<Rightarrow> database \<Rightarrow> document_row \<times> database" where
  "disclosing_steps d db = (d, delete_analyses (\<lambda>a. True) db)"

section \<open>Properties of the documents slice\<close>

text \<open>
  Claim C8. After \<open>deleteDocument.fulfilled\<close> with payload \<open>X\<close> the documents array is the
  prior array without the entries whose id is \<open>X\<close>: the entries kept are exactly those with
  another id, unchanged and in their prior order. \<open>currentDocument\<close> becomes null if its id
  was \<open>X\<close> and is unchanged otherwise; \<open>isLoading\<close> is false and \<open>error\<close> is null.
  The remaining members of the state keep their values.
\<close>

theorem deleteDocument_fulfilled_effect:
  "documents (documentSlice state (DeleteDocumentFulfilled X))
     = filter (\<lambda>doc. doc_id doc \<noteq> X) (documents state)
   \<and> (\<forall>doc \<in> set (documents (documentSlice state (DeleteDocumentFulfilled X))). doc_id doc \<noteq> X)
   \<and> ((\<forall>doc \<in> set (documents state). doc_id doc \<noteq> X) \<longrightarrow>
        documents (documentSlice state (DeleteDocumentFulfilled X)) = documents state)
   \<and> currentDocument (documentSlice state (DeleteDocumentFulfilled X))
     = (if \<exists>cur. currentDocument state = Some cur \<and> doc_id cur = X then None
        else currentDocument state)
   \<and> isLoading (documentSlice state (DeleteDocumentFulfilled X)) = False
   \<and> error (documentSlice state (DeleteDocumentFulfilled X)) = None
   \<and> uploadProgress (documentSlice state (DeleteDocumentFulfilled X)) = uploadProgress state
   \<and> total (documentSlice state (DeleteDocumentFulfilled X)) = total state
   \<and> skip (documentSlice state (DeleteDocumentFulfilled X)) = skip state
   \<and> limit (documentSlice state (DeleteDocumentFulfilled X)) = limit state"
  by (auto split: option.splits simp: filter_id_conv)

theorem deleteDocument_fulfilled_effect_witness:
  "documents (documentSlice busyState (DeleteDocumentFulfilled ''a'')) = [docB]
   \<and> currentDocument (documentSlice busyState (DeleteDocumentFulfilled ''a'')) = None
   \<and> isLoading (documentSlice busyState (DeleteDocumentFulfilled ''a'')) = False
   \<and> error (documentSlice busyState (DeleteDocumentFulfilled ''a'')) = None"
proof -
  have ids: "doc_id docA = ''a''" "doc_id docB = ''b''"
    by (simp_all add: docA_def docB_def)
  have st: "documents busyState = [docA, docB, docA]" "currentDocument busyState = Some docA"
    by (simp_all add: busyState_def)
  show ?thesis
    using deleteDocument_fulfilled_effect [of busyState "''a''"]
    by (simp add: st ids)
qed

text \<open>
  Every action keeps the implication from \<open>isLoading\<close> to a null \<open>error\<close>.
\<close>

lemma documentSlice_keeps_invariant:
  "(isLoading state \<longrightarrow> error state = None) \<Longrightarrow>
   isLoading (documentSlice state a) \<longrightarrow> error (documentSlice state a) = None"
  by (cases a) simp_all

lemma foldl_documentSlice_invariant:
  "(isLoading state \<longrightarrow> error state = None) \<Longrightarrow>
   isLoading (foldl documentSlice state actions)
     \<longrightarrow> error (foldl documentSlice state actions) = None"
proof (induction actions arbitrary: state)
  case Nil
  then show ?case by simp
next
  case (Cons a actions)
  have "isLoading (documentSlice state a) \<longrightarrow> error (documentSlice state a) = None"
    using Cons.prems by (rule documentSlice_keeps_invariant)
  then show ?case
    using Cons.IH [of "documentSlice state a"] by simp
qed

text \<open>
  Claim C10. In every state the slice reaches from its initial state, \<open>isLoading\<close> implies
  that \<open>error\<close> is null. Every pending action sets \<open>isLoading\<close> and clears \<open>error\<close>; a
  rejected action, which stores its payload as the error, sets \<open>isLoading\<close> to false,
  and every other action leaves \<open>error\<close> as it was or sets it to null.
\<close>

theorem isLoading_implies_error_null:
  "(isLoading (dispatchAll actions) \<longrightarrow> error (dispatchAll actions) = None)
   \<and> (isPending a \<longrightarrow>
        isLoading (documentSlice state a) \<and> error (documentSlice state a) = None)
   \<and> (isRejected a \<longrightarrow> \<not> isLoading (documentSlice state a))
   \<and> (\<not> isRejected a \<longrightarrow>
        error (documentSlice state a) = None \<or> error (documentSlice state a) = error state)"
proof (intro conjI)
  show "isLoading (dispatchAll actions) \<longrightarrow> error (dispatchAll actions) = None"
    unfolding dispatchAll_def
    by (rule foldl_documentSlice_invariant) (simp add: initialState_def)
  show "isPending a \<longrightarrow>
        isLoading (documentSlice state a) \<and> error (documentSlice state a) = None"
    by (cases a) simp_all
  show "isRejected a \<longrightarrow> \<not> isLoading (documentSlice state a)"
    by (cases a) simp_all
  show "\<not> isRejected a \<longrightarrow>
        error (documentSlice state a) = None \<or> error (documentSlice state a) = error state"
    by (cases a) simp_all
qed

theorem isLoading_implies_error_null_witness:
  "isLoading (dispatchAll [UploadDocumentRejected ''too large'', FetchDocumentsPending])
   \<and> error (dispatchAll [UploadDocumentRejected ''too large'', FetchDocumentsPending]) = None
   \<and> isRejected (DeleteDocumentRejected ''gone'')
   \<and> error (documentSlice initialState (DeleteDocumentRejected ''gone'')) = Some ''gone''
   \<and> \<not> isLoading (documentSlice initialState (DeleteDocumentRejected ''gone''))"
  using isLoading_implies_error_null
          [of "[UploadDocumentRejected ''too large'', FetchDocumentsPending]"
              "DeleteDocumentRejected ''gone''" initialState]
  by (simp add: dispatchAll_def initialState_def)

section \<open>Properties of the axios interceptors\<close>

text \<open>
  Claim C7. A token is present when \<open>localStorage.getItem('token')\<close> passes the test
  \<open>if (token)\<close> of the interceptor: it is a stored string that is not empty. The request
  interceptor sets the header \<open>Authorization\<close> to \<open>Bearer\<close>, a space and the token
  exactly when a token is present, and then changes nothing else of the request; otherwise
  it returns the request as it was, so it adds no header. An error whose response has
  status 401 removes the stored token, leaves the rest of \<open>localStorage\<close> alone and
  sends the browser to \<open>/login\<close>; every other error, also one without a response,
  leaves the browser state unchanged; in both cases the error is passed on. Under the
  default status validation this is what a reply does: 401 clears the token, any other
  status leaves it.
\<close>

theorem interceptors_effect:
  "(\<forall>token. localStorage browser ''token'' = Some token \<and> token \<noteq> [] \<longrightarrow>
      requestInterceptor browser config
        = config\<lparr>headers := (headers config)(''Authorization'' \<mapsto> ''Bearer '' @ token)\<rparr>)
   \<and> (localStorage browser ''token'' = None \<or> localStorage browser ''token'' = Some [] \<longrightarrow>
        requestInterceptor browser config = config)
   \<and> (\<forall>r. response err = Some r \<and> status r = 401 \<longrightarrow>
        responseErrorInterceptor err browser
          = (err, browser\<lparr>localStorage := (localStorage browser)(''token'' := None),
                          location_href := ''/login''\<rparr>))
   \<and> (response err = None \<or> (\<exists>r. response err = Some r \<and> status r \<noteq> 401) \<longrightarrow>
        responseErrorInterceptor err browser = (err, browser))
   \<and> (status reply401 = 401 \<longrightarrow>
        fst (settle reply401 browser) = Inl \<lparr>response = Some reply401\<rparr>
        \<and> localStorage (snd (settle reply401 browser)) ''token'' = None
        \<and> (\<forall>key. key \<noteq> ''token'' \<longrightarrow>
              localStorage (snd (settle reply401 browser)) key = localStorage browser key)
        \<and> location_href (snd (settle reply401 browser)) = ''/login'')
   \<and> (status other \<noteq> 401 \<longrightarrow> snd (settle other browser) = browser)"
proof (intro conjI)
  show "\<forall>token. localStorage browser ''token'' = Some token \<and> token \<noteq> [] \<longrightarrow>
      requestInterceptor browser config
        = config\<lparr>headers := (headers config)(''Authorization'' \<mapsto> ''Bearer '' @ token)\<rparr>"
    by (simp add: requestInterceptor_def)
  show "localStorage browser ''token'' = None \<or> localStorage browser ''token'' = Some [] \<longrightarrow>
        requestInterceptor browser config = config"
    by (auto simp: requestInterceptor_def)
  show "\<forall>r. response err = Some r \<and> status r = 401 \<longrightarrow>
        responseErrorInterceptor err browser
          = (err, browser\<lparr>localStorage := (localStorage browser)(''token'' := None),
                          location_href := ''/login''\<rparr>)"
    by (simp add: responseErrorInterceptor_def)
  show "response err = None \<or> (\<exists>r. response err = Some r \<and> status r \<noteq> 401) \<longrightarrow>
        responseErrorInterceptor err browser = (err, browser)"
    by (auto simp: responseErrorInterceptor_def)
  show "status reply401 = 401 \<longrightarrow>
        fst (settle reply401 browser) = Inl \<lparr>response = Some reply401\<rparr>
        \<and> localStorage (snd (settle reply401 browser)) ''token'' = None
        \<and> (\<forall>key. key \<noteq> ''token'' \<longrightarrow>
              localStorage (snd (settle reply401 browser)) key = localStorage browser key)
        \<and> location_href (snd (settle reply401 browser)) = ''/login''"
    by (simp add: settle_def validateStatus_def responseErrorInterceptor_def)
  show "status other \<noteq> 401 \<longrightarrow> snd (settle other browser) = browser"
    by (simp add: settle_def responseErrorInterceptor_def)
qed

theorem interceptors_effect_witness:
  "localStorage signedIn ''token'' = Some ''abc''
   \<and> headers (requestInterceptor signedIn jsonRequest) ''Authorization'' = Some ''Bearer abc''
   \<and> headers (requestInterceptor signedIn jsonRequest) ''Content-Type''
       = Some ''application/json''
   \<and> localStorage signedOut ''token'' = None
   \<and> requestInterceptor signedOut jsonRequest = jsonRequest
   \<and> status (reply 401) = 401
   \<and> localStorage (snd (settle (reply 401) signedIn)) ''token'' = None
   \<and> localStorage (snd (settle (reply 401) signedIn)) ''theme'' = Some ''dark''
   \<and> location_href (snd (settle (reply 401) signedIn)) = ''/login''
   \<and> status (reply 403) = 403
   \<and> snd (settle (reply 403) signedIn) = signedIn
   \<and> responseErrorInterceptor \<lparr>response = None\<rparr> signedIn = (\<lparr>response = None\<rparr>, signedIn)"
proof -
  note t = interceptors_effect
             [of signedIn jsonRequest "\<lparr>response = Some (reply 401)\<rparr>" "reply 401" "reply 403"]
  have tok: "localStorage signedIn ''token'' = Some ''abc''"
            "localStorage signedIn ''theme'' = Some ''dark''"
    by (simp_all add: signedIn_def)
  have out: "localStorage signedOut ''token'' = None"
    by (simp add: signedOut_def)
  have st: "status (reply 401) = 401" "status (reply 403) = 403"
    by (simp_all add: reply_def)
  have req: "requestInterceptor signedIn jsonRequest
      = jsonRequest\<lparr>headers := (headers jsonRequest)(''Authorization'' \<mapsto> ''Bearer '' @ ''abc'')\<rparr>"
    using t tok by simp
  have out_req: "requestInterceptor signedOut jsonRequest = jsonRequest"
    using interceptors_effect
            [of signedOut jsonRequest "\<lparr>response = Some (reply 401)\<rparr>" "reply 401" "reply 403"]
          out
    by simp
  have unauth: "localStorage (snd (settle (reply 401) signedIn)) ''token'' = None"
               "localStorage (snd (settle (reply 401) signedIn)) ''theme'' = Some ''dark''"
               "location_href (snd (settle (reply 401) signedIn)) = ''/login''"
    using t st tok by simp_all
  have forbidden: "snd (settle (reply 403) signedIn) = signedIn"
    using t st by simp
  have network: "responseErrorInterceptor \<lparr>response = None\<rparr> signedIn
      = (\<lparr>response = None\<rparr>, signedIn)"
    using interceptors_effect
            [of signedIn jsonRequest "\<lparr>response = None\<rparr>" "reply 401" "reply 403"]
    by simp
  show ?thesis
    using tok out st req out_req unauth forbidden network
    by (simp add: jsonRequest_def)
qed

section \<open>Properties of the store\<close>

subsection \<open>Deleting rows\<close>

lemma users_table_delete_analyses [simp]:
  "users_table (delete_analyses w db) = users_table db"
  "documents_table (delete_analyses w db) = documents_table db"
  "analyses_table (delete_analyses w db) = filter (\<lambda>a. \<not> w a) (analyses_table db)"
  by (simp_all add: delete_analyses_def)

lemma tables_delete_documents:
  "users_table (delete_documents w db) = users_table db"
  "documents_table (delete_documents w db) = filter (\<lambda>d. \<not> w d) (documents_table db)"
  "analyses_table (delete_documents w db)
     = filter (\<lambda>a. \<not> refers (a_document_id a) (map d_id (filter w (documents_table db))))
         (analyses_table db)"
  by (simp_all add: delete_documents_def Let_def)

lemma tables_delete_users:
  "users_table (delete_users w db) = filter (\<lambda>u. \<not> w u) (users_table db)"
  "documents_table (delete_users w db)
     = filter (\<lambda>d. \<not> refers (d_user_id d) (map u_id (filter w (users_table db))))
         (documents_table db)"
  "analyses_table (delete_users w db)
     = filter (\<lambda>a. \<not> refers (a_user_id a) (map u_id (filter w (users_table db)))
                  \<and> \<not> refers (a_document_id a)
                        (map d_id (filter (\<lambda>d. refers (d_user_id d)
                                             (map u_id (filter w (users_table db))))
                                     (documents_table db))))
         (analyses_table db)"
  by (simp_all add: delete_users_def Let_def tables_delete_documents conj_commute)

lemma references_intact_delete_documents:
  assumes "references_intact db"
  shows "references_intact (delete_documents w db)"
  using assms
  by (fastforce simp: references_intact_def tables_delete_documents list_all_iff refers_def
        user_keys_def document_keys_def image_iff)

lemma references_intact_delete_users:
  assumes "references_intact db"
  shows "references_intact (delete_users w db)"
  using assms
  by (fastforce simp: references_intact_def tables_delete_users list_all_iff refers_def
        user_keys_def document_keys_def image_iff)

lemma references_intact_delete_analyses:
  assumes "references_intact db"
  shows "references_intact (delete_analyses w db)"
  using assms
  by (auto simp: references_intact_def list_all_iff user_keys_def document_keys_def)

subsection \<open>What an accepted statement has checked\<close>

lemma user_rating_check_iff: "analyses_user_rating_check r = rating_in_range r"
  by (cases "a_user_rating r")
     (auto simp: analyses_user_rating_check_def rating_in_range_def check_passes_def
        sql_and_def sql_ge_def sql_le_def)

lemma list_all_changed:
  "list_all P (map f (filter w xs)) = (\<forall>x \<in> set xs. w x \<longrightarrow> P (f x))"
  by (auto simp: list_all_iff)

lemma outcome_cases:
  "outcome db res = (None, db') \<longleftrightarrow> res = Inr db'"
  "snd (outcome db (Inl e)) = db"
  "snd (outcome db (Inr db')) = db'"
  "fst (outcome db (Inl e)) = Some e"
  "fst (outcome db (Inr db')) = None"
  by (auto simp: outcome_def split: sum.splits)

lemma run_invariant:
  assumes "P empty_database"
    and "\<And>s db. Q s \<Longrightarrow> P db \<Longrightarrow> P (snd (execute s db))"
    and "list_all Q stmts"
  shows "P (run stmts)"
  using assms(3)
proof (induction stmts rule: rev_induct)
  case Nil
  then show ?case using assms(1) by (simp add: run_def)
next
  case (snoc s stmts)
  then have "P (run stmts)" and "Q s" by simp_all
  then have "P (snd (execute s (run stmts)))" using assms(2) by blast
  then show ?case by (simp add: run_def)
qed

lemma insert_analysis_Inr:
  "insert_analysis gen now supplied db = Inr db' \<Longrightarrow>
   db' = db\<lparr>analyses_table := analyses_table db @ [supplied (default_analysis gen now)]\<rparr>
   \<and> analysis_not_null (supplied (default_analysis gen now))
   \<and> analyses_user_rating_check (supplied (default_analysis gen now))
   \<and> foreign_key (a_user_id (supplied (default_analysis gen now))) (user_keys db)
   \<and> foreign_key (a_document_id (supplied (default_analysis gen now))) (document_keys db)"
  by (auto simp: insert_analysis_def Let_def split: if_splits)

lemma insert_document_Inr:
  "insert_document gen now supplied db = Inr db' \<Longrightarrow>
   db' = db\<lparr>documents_table := documents_table db @ [supplied (default_document gen now)]\<rparr>
   \<and> document_not_null (supplied (default_document gen now))
   \<and> foreign_key (d_user_id (supplied (default_document gen now))) (user_keys db)"
  by (auto simp: insert_document_def Let_def split: if_splits)

lemma insert_user_Inr:
  "insert_user gen now supplied db = Inr db' \<Longrightarrow>
   db' = db\<lparr>users_table := users_table db @ [supplied (default_user gen now)]\<rparr>"
  by (auto simp: insert_user_def Let_def split: if_splits)

lemma update_analyses_Inr:
  "update_analyses now wher setter db = Inr db' \<Longrightarrow>
   db' = db\<lparr>analyses_table :=
             map (\<lambda>r. if wher r then (setter r)\<lparr>a_updated_at := Some now\<rparr> else r)
               (analyses_table db)\<rparr>
   \<and> (\<forall>r \<in> set (analyses_table db). wher r \<longrightarrow>
        analysis_not_null ((setter r)\<lparr>a_updated_at := Some now\<rparr>)
        \<and> analyses_user_rating_check ((setter r)\<lparr>a_updated_at := Some now\<rparr>)
        \<and> foreign_key (a_user_id ((setter r)\<lparr>a_updated_at := Some now\<rparr>)) (user_keys db)
        \<and> foreign_key (a_document_id ((setter r)\<lparr>a_updated_at := Some now\<rparr>))
            (document_keys db))"
  by (auto simp: update_analyses_def Let_def list_all_changed split: if_splits)

lemma update_documents_Inr:
  "update_documents now wher setter db = Inr db' \<Longrightarrow>
   db' = db\<lparr>documents_table :=
             map (\<lambda>r. if wher r then (setter r)\<lparr>d_updated_at := Some now\<rparr> else r)
               (documents_table db)\<rparr>
   \<and> (\<forall>r \<in> set (documents_table db). wher r \<longrightarrow>
        document_not_null ((setter r)\<lparr>d_updated_at := Some now\<rparr>)
        \<and> foreign_key (d_user_id ((setter r)\<lparr>d_updated_at := Some now\<rparr>)) (user_keys db))
   \<and> list_all (\<lambda>a. foreign_key (a_document_id a)
         (map d_id (map (\<lambda>r. if wher r then (setter r)\<lparr>d_updated_at := Some now\<rparr> else r)
               (documents_table db)))) (analyses_table db)"
  by (auto simp: update_documents_def Let_def list_all_changed split: if_splits)

lemma update_users_Inr:
  "update_users now wher setter db = Inr db' \<Longrightarrow>
   db' = db\<lparr>users_table :=
             map (\<lambda>r. if wher r then (setter r)\<lparr>u_updated_at := Some now\<rparr> else r)
               (users_table db)\<rparr>
   \<and> list_all (\<lambda>d. foreign_key (d_user_id d)
         (map u_id (map (\<lambda>r. if wher r then (setter r)\<lparr>u_updated_at := Some now\<rparr> else r)
               (users_table db)))) (documents_table db)
   \<and> list_all (\<lambda>a. foreign_key (a_user_id a)
         (map u_id (map (\<lambda>r. if wher r then (setter r)\<lparr>u_updated_at := Some now\<rparr> else r)
               (users_table db)))) (analyses_table db)"
  by (auto simp: update_users_def Let_def split: if_splits)

lemma execute_keeps_rating:
  assumes "list_all rating_in_range (analyses_table db)"
  shows "list_all rating_in_range (analyses_table (snd (execute s db)))"
proof (cases s)
  case (InsertAnalysis gen now supplied)
  show ?thesis
  proof (cases "insert_analysis gen now supplied db")
    case (Inl e)
    then show ?thesis using assms InsertAnalysis by (simp add: outcome_cases)
  next
    case (Inr db')
    then show ?thesis
      using assms InsertAnalysis insert_analysis_Inr [OF Inr]
      by (simp add: outcome_cases user_rating_check_iff)
  qed
next
  case (UpdateAnalyses now wher setter)
  show ?thesis
  proof (cases "update_analyses now wher setter db")
    case (Inl e)
    then show ?thesis using assms UpdateAnalyses by (simp add: outcome_cases)
  next
    case (Inr db')
    then show ?thesis
      using assms UpdateAnalyses update_analyses_Inr [OF Inr]
      by (auto simp: outcome_cases user_rating_check_iff list_all_iff)
  qed
next
  case (InsertUser gen now supplied)
  then show ?thesis
    using assms by (cases "insert_user gen now supplied db")
      (auto simp: outcome_cases dest: insert_user_Inr)
next
  case (InsertDocument gen now supplied)
  then show ?thesis
    using assms by (cases "insert_document gen now supplied db")
      (auto simp: outcome_cases dest: insert_document_Inr)
next
  case (UpdateUsers now wher setter)
  then show ?thesis
    using assms by (cases "update_users now wher setter db")
      (auto simp: outcome_cases dest: update_users_Inr)
next
  case (UpdateDocuments now wher setter)
  then show ?thesis
    using assms by (cases "update_documents now wher setter db")
      (auto simp: outcome_cases dest: update_documents_Inr)
next
  case (DeleteUsers wher)
  then show ?thesis using assms by (auto simp: tables_delete_users list_all_iff)
next
  case (DeleteDocuments wher)
  then show ?thesis using assms by (auto simp: tables_delete_documents list_all_iff)
next
  case (DeleteAnalyses wher)
  then show ?thesis using assms by (auto simp: list_all_iff)
qed

subsection \<open>Invariants kept by every statement\<close>

lemma refers_iff: "refers v keys \<longleftrightarrow> v \<noteq> None \<and> foreign_key v keys"
  by (auto simp: refers_def foreign_key_def)

lemma execute_keeps_references:
  assumes "references_intact db"
  shows "references_intact (snd (execute s db))"
proof (cases s)
  case (InsertUser gen now supplied)
  then show ?thesis
    using assms by (cases "insert_user gen now supplied db")
      (auto simp: outcome_cases references_intact_def list_all_iff user_keys_def
         document_keys_def refers_def dest!: insert_user_Inr)
next
  case (InsertDocument gen now supplied)
  then show ?thesis
    using assms by (cases "insert_document gen now supplied db")
      (auto simp: outcome_cases references_intact_def list_all_iff user_keys_def
         document_keys_def refers_def foreign_key_def document_not_null_def
         dest!: insert_document_Inr)
next
  case (InsertAnalysis gen now supplied)
  then show ?thesis
    using assms by (cases "insert_analysis gen now supplied db")
      (auto simp: outcome_cases references_intact_def list_all_iff user_keys_def
         document_keys_def refers_def foreign_key_def analysis_not_null_def
         dest!: insert_analysis_Inr)
next
  case (UpdateUsers now wher setter)
  show ?thesis
  proof (cases "update_users now wher setter db")
    case (Inl e)
    then show ?thesis using assms UpdateUsers by (simp add: outcome_cases)
  next
    case (Inr db')
    from update_users_Inr [OF Inr] assms show ?thesis
      using UpdateUsers Inr
      by (auto simp: outcome_cases references_intact_def list_all_iff user_keys_def
            document_keys_def refers_iff)
  qed
next
  case (UpdateDocuments now wher setter)
  show ?thesis
  proof (cases "update_documents now wher setter db")
    case (Inl e)
    then show ?thesis using assms UpdateDocuments by (simp add: outcome_cases)
  next
    case (Inr db')
    from update_documents_Inr [OF Inr] assms show ?thesis
      using UpdateDocuments Inr
      by (auto simp: outcome_cases references_intact_def list_all_iff user_keys_def
            document_keys_def refers_iff document_not_null_def)
  qed
next
  case (UpdateAnalyses now wher setter)
  show ?thesis
  proof (cases "update_analyses now wher setter db")
    case (Inl e)
    then show ?thesis using assms UpdateAnalyses by (simp add: outcome_cases)
  next
    case (Inr db')
    from update_analyses_Inr [OF Inr] assms show ?thesis
      using UpdateAnalyses Inr
      by (auto simp: outcome_cases references_intact_def list_all_iff user_keys_def
            document_keys_def refers_iff analysis_not_null_def)
  qed
next
  case (DeleteUsers wher)
  then show ?thesis using assms by (simp add: references_intact_delete_users)
next
  case (DeleteDocuments wher)
  then show ?thesis using assms by (simp add: references_intact_delete_documents)
next
  case (DeleteAnalyses wher)
  then show ?thesis using assms by (simp add: references_intact_delete_analyses)
qed

lemma references_intact_run: "references_intact (run stmts)"
proof (rule run_invariant [where Q = "\<lambda>s. True"])
  show "references_intact empty_database"
    by (simp add: references_intact_def empty_database_def)
  show "\<And>s db. True \<Longrightarrow> references_intact db \<Longrightarrow> references_intact (snd (execute s db))"
    by (rule execute_keeps_references)
  show "list_all (\<lambda>s. True) stmts"
    by (simp add: list_all_iff)
qed

lemma execute_keeps_document_status:
  assumes "stores_valid_document_status s"
    and "list_all document_status_valid (documents_table db)"
  shows "list_all document_status_valid (documents_table (snd (execute s db)))"
proof (cases s)
  case (InsertDocument gen now supplied)
  then show ?thesis
    using assms by (cases "insert_document gen now supplied db")
      (auto simp: outcome_cases dest!: insert_document_Inr)
next
  case (UpdateDocuments now wher setter)
  show ?thesis
  proof (cases "update_documents now wher setter db")
    case (Inl e)
    then show ?thesis using assms UpdateDocuments by (simp add: outcome_cases)
  next
    case (Inr db')
    from update_documents_Inr [OF Inr] assms show ?thesis
      using UpdateDocuments Inr
      by (auto simp: outcome_cases list_all_iff document_status_valid_def)
  qed
next
  case (InsertUser gen now supplied)
  then show ?thesis
    using assms by (cases "insert_user gen now supplied db")
      (auto simp: outcome_cases dest: insert_user_Inr)
next
  case (InsertAnalysis gen now supplied)
  then show ?thesis
    using assms by (cases "insert_analysis gen now supplied db")
      (auto simp: outcome_cases dest: insert_analysis_Inr)
next
  case (UpdateUsers now wher setter)
  then show ?thesis
    using assms by (cases "update_users now wher setter db")
      (auto simp: outcome_cases dest: update_users_Inr)
next
  case (UpdateAnalyses now wher setter)
  then show ?thesis
    using assms by (cases "update_analyses now wher setter db")
      (auto simp: outcome_cases dest: update_analyses_Inr)
next
  case (DeleteUsers wher)
  then show ?thesis using assms by (auto simp: tables_delete_users list_all_iff)
next
  case (DeleteDocuments wher)
  then show ?thesis using assms by (auto simp: tables_delete_documents list_all_iff)
next
  case (DeleteAnalyses wher)
  then show ?thesis using assms by (auto simp: list_all_iff)
qed

lemma execute_keeps_analysis_status:
  assumes "stores_valid_analysis_status s"
    and "list_all analysis_status_valid (analyses_table db)"
  shows "list_all analysis_status_valid (analyses_table (snd (execute s db)))"
proof (cases s)
  case (InsertAnalysis gen now supplied)
  then show ?thesis
    using assms by (cases "insert_analysis gen now supplied db")
      (auto simp: outcome_cases dest!: insert_analysis_Inr)
next
  case (UpdateAnalyses now wher setter)
  show ?thesis
  proof (cases "update_analyses now wher setter db")
    case (Inl e)
    then show ?thesis using assms UpdateAnalyses by (simp add: outcome_cases)
  next
    case (Inr db')
    from update_analyses_Inr [OF Inr] assms show ?thesis
      using UpdateAnalyses Inr
      by (auto simp: outcome_cases list_all_iff analysis_status_valid_def)
  qed
next
  case (InsertUser gen now supplied)
  then show ?thesis
    using assms by (cases "insert_user gen now supplied db")
      (auto simp: outcome_cases dest: insert_user_Inr)
next
  case (InsertDocument gen now supplied)
  then show ?thesis
    using assms by (cases "insert_document gen now supplied db")
      (auto simp: outcome_cases dest: insert_document_Inr)
next
  case (UpdateUsers now wher setter)
  then show ?thesis
    using assms by (cases "update_users now wher setter db")
      (auto simp: outcome_cases dest: update_users_Inr)
next
  case (UpdateDocuments now wher setter)
  then show ?thesis
    using assms by (cases "update_documents now wher setter db")
      (auto simp: outcome_cases dest: update_documents_Inr)
next
  case (DeleteUsers wher)
  then show ?thesis using assms by (auto simp: tables_delete_users list_all_iff)
next
  case (DeleteDocuments wher)
  then show ?thesis using assms by (auto simp: tables_delete_documents list_all_iff)
next
  case (DeleteAnalyses wher)
  then show ?thesis using assms by (auto simp: list_all_iff)
qed

subsection \<open>The sample database\<close>

lemma sample_keys:
  "u_id user1 = Some ''u1''" "u_id user2 = Some ''u2''"
  "d_id document1 = Some ''d1''" "d_user_id document1 = Some ''u1''"
  "d_id document2 = Some ''d2''" "d_user_id document2 = Some ''u2''"
  "a_id analysis1 = Some ''a1''" "a_user_id analysis1 = Some ''u1''"
  "a_document_id analysis1 = Some ''d1''"
  "a_id analysis2 = Some ''a2''" "a_user_id analysis2 = Some ''u2''"
  "a_document_id analysis2 = Some ''d2''"
  "a_id analysis3 = Some ''a3''" "a_user_id analysis3 = Some ''u2''"
  "a_document_id analysis3 = Some ''d1''"
  by (simp_all add: user1_def user2_def document1_def document2_def analysis1_def
        analysis2_def analysis3_def user_values_def document_values_def analysis_values_def
        completed_analysis_values_def default_user_def default_document_def
        default_analysis_def)

lemma sample_tables:
  "users_table sample_database = [user1, user2]"
  "documents_table sample_database = [document1, document2]"
  "analyses_table sample_database = [analysis1, analysis2, analysis3]"
  by (simp_all add: sample_database_def)

lemma sample_references_intact: "references_intact sample_database"
  by (simp add: references_intact_def sample_tables sample_keys refers_def user_keys_def
        document_keys_def)

lemma sample_database_reached: "run sample_statements = sample_database"
  by (simp add: run_def sample_statements_def empty_database_def outcome_def
        insert_user_def insert_document_def insert_analysis_def Let_def
        user_not_null_def document_not_null_def analysis_not_null_def unique_column_def
        foreign_key_def user_keys_def document_keys_def analyses_user_rating_check_def
        check_passes_def sql_and_def sql_ge_def sql_le_def
        user_values_def document_values_def analysis_values_def completed_analysis_values_def
        default_user_def default_document_def default_analysis_def
        sample_database_def user1_def user2_def document1_def document2_def
        analysis1_def analysis2_def analysis3_def)

subsection \<open>Cascading deletes\<close>

text \<open>
  Claim C1. Every database the statements build has no orphan rows. In such a database,
  deleting users deletes every document whose \<open>user_id\<close> refers to a deleted user, every
  analysis whose \<open>user_id\<close> refers to a deleted user and every analysis whose
  \<open>document_id\<close> refers to a document of a deleted user; the users left are those the
  statement did not select, and no orphan row is left. Likewise deleting documents deletes
  every analysis that refers to a deleted document and leaves no orphan row.
\<close>

theorem cascading_delete:
  "references_intact (run stmts)
   \<and> (references_intact db \<longrightarrow>
       (\<forall>d \<in> set (documents_table db).
          (\<exists>u \<in> set (users_table db). wu u \<and> d_user_id d = u_id u)
            \<longrightarrow> d \<notin> set (documents_table (delete_users wu db)))
       \<and> (\<forall>a \<in> set (analyses_table db).
          (\<exists>u \<in> set (users_table db). wu u \<and> a_user_id a = u_id u)
            \<longrightarrow> a \<notin> set (analyses_table (delete_users wu db)))
       \<and> (\<forall>a \<in> set (analyses_table db).
          (\<exists>d \<in> set (documents_table db). \<exists>u \<in> set (users_table db).
              wu u \<and> d_user_id d = u_id u \<and> a_document_id a = d_id d)
            \<longrightarrow> a \<notin> set (analyses_table (delete_users wu db)))
       \<and> users_table (delete_users wu db) = filter (\<lambda>u. \<not> wu u) (users_table db)
       \<and> references_intact (delete_users wu db)
       \<and> (\<forall>a \<in> set (analyses_table db).
          (\<exists>d \<in> set (documents_table db). wd d \<and> a_document_id a = d_id d)
            \<longrightarrow> a \<notin> set (analyses_table (delete_documents wd db)))
       \<and> documents_table (delete_documents wd db) = filter (\<lambda>d. \<not> wd d) (documents_table db)
       \<and> references_intact (delete_documents wd db))"
proof (intro conjI impI)
  show "references_intact (run stmts)"
    by (rule references_intact_run)
next
  assume intact: "references_intact db"
  show "references_intact (delete_users wu db)"
    using intact by (rule references_intact_delete_users)
  show "references_intact (delete_documents wd db)"
    using intact by (rule references_intact_delete_documents)
  show "users_table (delete_users wu db) = filter (\<lambda>u. \<not> wu u) (users_table db)"
    by (simp add: tables_delete_users)
  show "documents_table (delete_documents wd db) = filter (\<lambda>d. \<not> wd d) (documents_table db)"
    by (simp add: tables_delete_documents)
  show "\<forall>d \<in> set (documents_table db).
        (\<exists>u \<in> set (users_table db). wu u \<and> d_user_id d = u_id u)
          \<longrightarrow> d \<notin> set (documents_table (delete_users wu db))"
    using intact
    by (auto simp: references_intact_def tables_delete_users list_all_iff refers_def)
  show "\<forall>a \<in> set (analyses_table db).
        (\<exists>u \<in> set (users_table db). wu u \<and> a_user_id a = u_id u)
          \<longrightarrow> a \<notin> set (analyses_table (delete_users wu db))"
    using intact
    by (auto simp: references_intact_def tables_delete_users list_all_iff refers_def)
  show "\<forall>a \<in> set (analyses_table db).
        (\<exists>d \<in> set (documents_table db). \<exists>u \<in> set (users_table db).
            wu u \<and> d_user_id d = u_id u \<and> a_document_id a = d_id d)
          \<longrightarrow> a \<notin> set (analyses_table (delete_users wu db))"
    using intact
    by (auto simp: references_intact_def tables_delete_users list_all_iff refers_def)
  show "\<forall>a \<in> set (analyses_table db).
        (\<exists>d \<in> set (documents_table db). wd d \<and> a_document_id a = d_id d)
          \<longrightarrow> a \<notin> set (analyses_table (delete_documents wd db))"
    using intact
    by (auto simp: references_intact_def tables_delete_documents list_all_iff refers_def)
qed

theorem cascading_delete_witness:
  "references_intact sample_database
   \<and> users_table (delete_users (is_user ''u1'') sample_database) = [user2]
   \<and> documents_table (delete_users (is_user ''u1'') sample_database) = [document2]
   \<and> analyses_table (delete_users (is_user ''u1'') sample_database) = [analysis2]
   \<and> references_intact (delete_users (is_user ''u1'') sample_database)
   \<and> documents_table (delete_documents (is_document ''d1'') sample_database) = [document2]
   \<and> analyses_table (delete_documents (is_document ''d1'') sample_database) = [analysis2]
   \<and> references_intact (delete_documents (is_document ''d1'') sample_database)"
proof -
  have t: "users_table (delete_users (is_user ''u1'') sample_database)
             = filter (\<lambda>u. \<not> is_user ''u1'' u) (users_table sample_database)
           \<and> references_intact (delete_users (is_user ''u1'') sample_database)
           \<and> documents_table (delete_documents (is_document ''d1'') sample_database)
             = filter (\<lambda>d. \<not> is_document ''d1'' d) (documents_table sample_database)
           \<and> references_intact (delete_documents (is_document ''d1'') sample_database)"
    using cascading_delete
            [of sample_statements sample_database "is_user ''u1''" "is_document ''d1''"]
          sample_references_intact
    by simp
  have u: "users_table (delete_users (is_user ''u1'') sample_database) = [user2]"
    using t by (simp add: sample_tables sample_keys is_user_def)
  have d: "documents_table (delete_users (is_user ''u1'') sample_database) = [document2]"
    by (simp add: tables_delete_users sample_tables sample_keys is_user_def refers_def)
  have a: "analyses_table (delete_users (is_user ''u1'') sample_database) = [analysis2]"
    by (simp add: tables_delete_users sample_tables sample_keys is_user_def refers_def)
  have d': "documents_table (delete_documents (is_document ''d1'') sample_database) = [document2]"
    using t by (simp add: sample_tables sample_keys is_document_def)
  have a': "analyses_table (delete_documents (is_document ''d1'') sample_database) = [analysis2]"
    by (simp add: tables_delete_documents sample_tables sample_keys is_document_def refers_def)
  show ?thesis
    using t u d a d' a' sample_references_intact by simp
qed

subsection \<open>The rating of an analysis\<close>

lemma rating_in_range_run: "list_all rating_in_range (analyses_table (run stmts))"
proof (rule run_invariant [where Q = "\<lambda>s. True"])
  show "list_all rating_in_range (analyses_table empty_database)"
    by (simp add: empty_database_def)
  show "\<And>s db. True \<Longrightarrow> list_all rating_in_range (analyses_table db) \<Longrightarrow>
          list_all rating_in_range (analyses_table (snd (execute s db)))"
    by (rule execute_keeps_rating)
  show "list_all (\<lambda>s. True) stmts"
    by (simp add: list_all_iff)
qed

lemma insert_analysis_rejects_rating:
  assumes "\<not> rating_in_range (supplied (default_analysis gen now))"
  shows "insert_analysis gen now supplied db = Inl (not_null_violation ''analyses'')
         \<or> insert_analysis gen now supplied db
             = Inl (check_violation ''analyses_user_rating_check'')"
  using assms by (simp add: insert_analysis_def Let_def user_rating_check_iff)

lemma trigger_keeps_rating:
  "rating_in_range (r\<lparr>a_updated_at := t\<rparr>) = rating_in_range r"
  by (simp add: rating_in_range_def)

lemma update_analyses_rejects_rating:
  assumes "a \<in> set (analyses_table db)" and "wher a" and "\<not> rating_in_range (setter a)"
  shows "update_analyses now wher setter db = Inl (not_null_violation ''analyses'')
         \<or> update_analyses now wher setter db
             = Inl (check_violation ''analyses_user_rating_check'')"
proof -
  have "\<not> list_all analyses_user_rating_check
          (map (\<lambda>r. (setter r)\<lparr>a_updated_at := Some now\<rparr>) (filter wher (analyses_table db)))"
    using assms by (auto simp: list_all_changed user_rating_check_iff trigger_keeps_rating)
  then show ?thesis
    by (simp add: update_analyses_def Let_def)
qed

lemma sample_ratings:
  "a_user_rating analysis1 = None" "a_user_rating analysis2 = None"
  "a_user_rating analysis3 = None"
  by (simp_all add: analysis1_def analysis2_def analysis3_def analysis_values_def
        completed_analysis_values_def default_analysis_def)

text \<open>
  Claim C9. In every database the statements build, the \<open>user_rating\<close> of every analysis
  is NULL or an integer from 1 to 5, and every statement keeps it so. An INSERT whose row
  has a rating outside that range, and an UPDATE (a feedback submission among them) that
  gives such a rating to a row it selects, is rejected, and the database, so every row of
  it, stays as it was.
\<close>

theorem user_rating_constraint:
  "(\<forall>a \<in> set (analyses_table (run stmts)).
      a_user_rating a = None \<or> (\<exists>v. a_user_rating a = Some v \<and> 1 \<le> v \<and> v \<le> 5))
   \<and> (list_all rating_in_range (analyses_table db) \<longrightarrow>
        list_all rating_in_range (analyses_table (snd (execute s db))))
   \<and> (\<not> rating_in_range (supplied (default_analysis gen now)) \<longrightarrow>
        execute (InsertAnalysis gen now supplied) db
          \<in> {(Some (not_null_violation ''analyses''), db),
              (Some (check_violation ''analyses_user_rating_check''), db)})
   \<and> ((\<exists>a \<in> set (analyses_table db). wher a \<and> \<not> rating_in_range (setter a)) \<longrightarrow>
        execute (UpdateAnalyses now wher setter) db
          \<in> {(Some (not_null_violation ''analyses''), db),
              (Some (check_violation ''analyses_user_rating_check''), db)})"
proof (intro conjI)
  show "\<forall>a \<in> set (analyses_table (run stmts)).
      a_user_rating a = None \<or> (\<exists>v. a_user_rating a = Some v \<and> 1 \<le> v \<and> v \<le> 5)"
  proof
    fix a
    assume "a \<in> set (analyses_table (run stmts))"
    then have "rating_in_range a"
      using rating_in_range_run [of stmts] by (simp add: list_all_iff)
    then show "a_user_rating a = None
        \<or> (\<exists>v. a_user_rating a = Some v \<and> 1 \<le> v \<and> v \<le> 5)"
      by (cases "a_user_rating a") (simp_all add: rating_in_range_def)
  qed
  show "list_all rating_in_range (analyses_table db) \<longrightarrow>
        list_all rating_in_range (analyses_table (snd (execute s db)))"
    using execute_keeps_rating by blast
  show "\<not> rating_in_range (supplied (default_analysis gen now)) \<longrightarrow>
        execute (InsertAnalysis gen now supplied) db
          \<in> {(Some (not_null_violation ''analyses''), db),
              (Some (check_violation ''analyses_user_rating_check''), db)}"
    using insert_analysis_rejects_rating [of supplied gen now db]
    by (auto simp: outcome_def)
  show "(\<exists>a \<in> set (analyses_table db). wher a \<and> \<not> rating_in_range (setter a)) \<longrightarrow>
        execute (UpdateAnalyses now wher setter) db
          \<in> {(Some (not_null_violation ''analyses''), db),
              (Some (check_violation ''analyses_user_rating_check''), db)}"
  proof
    assume "\<exists>a \<in> set (analyses_table db). wher a \<and> \<not> rating_in_range (setter a)"
    then obtain a where "a \<in> set (analyses_table db)" "wher a" "\<not> rating_in_range (setter a)"
      by blast
    then have "update_analyses now wher setter db = Inl (not_null_violation ''analyses'')
         \<or> update_analyses now wher setter db
             = Inl (check_violation ''analyses_user_rating_check'')"
      by (rule update_analyses_rejects_rating)
    then show "execute (UpdateAnalyses now wher setter) db
          \<in> {(Some (not_null_violation ''analyses''), db),
              (Some (check_violation ''analyses_user_rating_check''), db)}"
      by (auto simp: outcome_def)
  qed
qed

theorem user_rating_constraint_witness:
  "map a_user_rating (analyses_table (run sample_statements)) = [None, None, None]
   \<and> \<not> rating_in_range (rated_analysis_values 6 (default_analysis ''a9'' 3))
   \<and> execute (InsertAnalysis ''a9'' 3 (rated_analysis_values 6)) sample_database
       = (Some (check_violation ''analyses_user_rating_check''), sample_database)
   \<and> analysis1 \<in> set (analyses_table sample_database)
   \<and> is_analysis ''a1'' analysis1
   \<and> \<not> rating_in_range (set_feedback (Some 0) None analysis1)
   \<and> execute (UpdateAnalyses 3 (is_analysis ''a1'') (set_feedback (Some 0) None)) sample_database
       = (Some (check_violation ''analyses_user_rating_check''), sample_database)
   \<and> map a_user_rating (analyses_table (snd (execute
         (UpdateAnalyses 3 (is_analysis ''a1'') (set_feedback (Some 5) (Some ''clear'')))
         sample_database))) = [Some 5, None, None]"
proof -
  have bad_insert: "\<not> rating_in_range (rated_analysis_values 6 (default_analysis ''a9'' 3))"
    by (simp add: rating_in_range_def rated_analysis_values_def)
  have not_null: "analysis_not_null (rated_analysis_values 6 (default_analysis ''a9'' 3))"
    by (simp add: analysis_not_null_def rated_analysis_values_def analysis_values_def
          default_analysis_def)
  have bad_update: "\<not> rating_in_range (set_feedback (Some 0) None analysis1)"
    by (simp add: rating_in_range_def set_feedback_def)
  have sel: "is_analysis ''a1'' analysis1" "\<not> is_analysis ''a1'' analysis2"
            "\<not> is_analysis ''a1'' analysis3"
    by (simp_all add: is_analysis_def sample_keys)
  have mem: "analysis1 \<in> set (analyses_table sample_database)"
    by (simp add: sample_tables)
  have upd_not_null:
    "analysis_not_null ((set_feedback r f analysis1)\<lparr>a_updated_at := Some 3\<rparr>)" for r f
    by (simp add: analysis_not_null_def set_feedback_def sample_keys analysis1_def
          completed_analysis_values_def analysis_values_def default_analysis_def)
  have ins: "execute (InsertAnalysis ''a9'' 3 (rated_analysis_values 6)) sample_database
       = (Some (check_violation ''analyses_user_rating_check''), sample_database)"
    using user_rating_constraint
            [of sample_statements sample_database "DeleteAnalyses (is_analysis ''a1'')"
                "rated_analysis_values 6" "''a9''" 3 "is_analysis ''a1''"
                "set_feedback (Some 0) None"]
          bad_insert not_null
    by (auto simp: outcome_def insert_analysis_def Let_def)
  have upd: "execute (UpdateAnalyses 3 (is_analysis ''a1'') (set_feedback (Some 0) None))
               sample_database
       = (Some (check_violation ''analyses_user_rating_check''), sample_database)"
    using user_rating_constraint
            [of sample_statements sample_database "DeleteAnalyses (is_analysis ''a1'')"
                "rated_analysis_values 6" "''a9''" 3 "is_analysis ''a1''"
                "set_feedback (Some 0) None"]
          bad_update sel mem upd_not_null [of "Some 0" None]
    by (auto simp: outcome_def update_analyses_def Let_def sample_tables)
  have ok: "map a_user_rating (analyses_table (snd (execute
         (UpdateAnalyses 3 (is_analysis ''a1'') (set_feedback (Some 5) (Some ''clear'')))
         sample_database))) = [Some 5, None, None]"
    using upd_not_null [of "Some 5" "Some ''clear''"] sel
    by (simp add: outcome_def update_analyses_def Let_def sample_tables sample_keys
          sample_ratings set_feedback_def user_rating_check_iff rating_in_range_def
          unique_column_def foreign_key_def user_keys_def document_keys_def)
  show ?thesis
    using ins upd ok bad_insert bad_update sel mem
    by (simp add: sample_database_reached sample_tables sample_ratings)
qed

subsection \<open>The status of a document\<close>

lemma document_status_run:
  assumes "list_all stores_valid_document_status stmts"
  shows "list_all document_status_valid (documents_table (run stmts))"
proof (rule run_invariant [where Q = stores_valid_document_status])
  show "list_all document_status_valid (documents_table empty_database)"
    by (simp add: empty_database_def)
  show "\<And>s db. stores_valid_document_status s \<Longrightarrow>
          list_all document_status_valid (documents_table db) \<Longrightarrow>
          list_all document_status_valid (documents_table (snd (execute s db)))"
    by (rule execute_keeps_document_status)
  show "list_all stores_valid_document_status stmts"
    by (rule assms)
qed

lemma analysis_status_run:
  assumes "list_all stores_valid_analysis_status stmts"
  shows "list_all analysis_status_valid (analyses_table (run stmts))"
proof (rule run_invariant [where Q = stores_valid_analysis_status])
  show "list_all analysis_status_valid (analyses_table empty_database)"
    by (simp add: empty_database_def)
  show "\<And>s db. stores_valid_analysis_status s \<Longrightarrow>
          list_all analysis_status_valid (analyses_table db) \<Longrightarrow>
          list_all analysis_status_valid (analyses_table (snd (execute s db)))"
    by (rule execute_keeps_analysis_status)
  show "list_all stores_valid_analysis_status stmts"
    by (rule assms)
qed

text \<open>
  Claim C4 as stated fails: the \<open>status\<close> column of \<open>documents\<close> has a default and no
  constraint, and the store accepts a document whose status is none of the four values.
\<close>

theorem document_status_counterexample:
  "run sample_statements = sample_database
   \<and> fst (execute (InsertDocument ''d9'' 5 archived_document_values) sample_database) = None
   \<and> map d_status (documents_table
        (snd (execute (InsertDocument ''d9'' 5 archived_document_values) sample_database)))
       = [Some ''uploaded'', Some ''uploaded'', Some ''archived'']
   \<and> \<not> list_all document_status_valid (documents_table
        (snd (execute (InsertDocument ''d9'' 5 archived_document_values) sample_database)))"
proof -
  have new: "d_id (archived_document_values (default_document ''d9'' 5)) = Some ''d9''"
            "d_user_id (archived_document_values (default_document ''d9'' 5)) = Some ''u1''"
            "d_status (archived_document_values (default_document ''d9'' 5)) = Some ''archived''"
            "document_not_null (archived_document_values (default_document ''d9'' 5))"
    by (simp_all add: archived_document_values_def document_values_def default_document_def
          document_not_null_def)
  have old: "d_status document1 = Some ''uploaded''" "d_status document2 = Some ''uploaded''"
    by (simp_all add: document1_def document2_def document_values_def default_document_def)
  have ins: "insert_document ''d9'' 5 archived_document_values sample_database
      = Inr (sample_database\<lparr>documents_table :=
               [document1, document2, archived_document_values (default_document ''d9'' 5)]\<rparr>)"
    by (simp add: insert_document_def Let_def new sample_tables sample_keys unique_column_def
          foreign_key_def user_keys_def)
  show ?thesis
    by (simp add: sample_database_reached ins outcome_def new old document_status_valid_def)
qed

text \<open>
  Claim C4, amended. A document inserted by a statement that names no status is stored as
  exactly one new row, with status \<open>uploaded\<close>. The store does not restrict the column:
  the status of every document is one of \<open>uploaded\<close>, \<open>processing\<close>, \<open>completed\<close>,
  \<open>failed\<close> as long as every INSERT and UPDATE that stores a status stores one of them.
\<close>

theorem document_status_default_and_writers:
  "((\<forall>r. d_status (supplied r) = d_status r)
      \<and> insert_document gen now supplied db = Inr db' \<longrightarrow>
      (\<exists>new. documents_table db' = documents_table db @ [new]
         \<and> d_status new = Some ''uploaded''))
   \<and> (list_all stores_valid_document_status stmts \<longrightarrow>
        list_all document_status_valid (documents_table (run stmts)))
   \<and> (stores_valid_document_status s \<and> list_all document_status_valid (documents_table db) \<longrightarrow>
        list_all document_status_valid (documents_table (snd (execute s db))))"
proof (intro conjI)
  show "(\<forall>r. d_status (supplied r) = d_status r)
      \<and> insert_document gen now supplied db = Inr db' \<longrightarrow>
      (\<exists>new. documents_table db' = documents_table db @ [new]
         \<and> d_status new = Some ''uploaded'')"
  proof
    assume h: "(\<forall>r. d_status (supplied r) = d_status r)
      \<and> insert_document gen now supplied db = Inr db'"
    then have "documents_table db' = documents_table db @ [supplied (default_document gen now)]"
      using insert_document_Inr [of gen now supplied db db'] by simp
    moreover have "d_status (supplied (default_document gen now)) = Some ''uploaded''"
      using h by (simp add: default_document_def)
    ultimately show "\<exists>new. documents_table db' = documents_table db @ [new]
         \<and> d_status new = Some ''uploaded''"
      by blast
  qed
  show "list_all stores_valid_document_status stmts \<longrightarrow>
        list_all document_status_valid (documents_table (run stmts))"
    using document_status_run by blast
  show "stores_valid_document_status s \<and> list_all document_status_valid (documents_table db) \<longrightarrow>
        list_all document_status_valid (documents_table (snd (execute s db)))"
    using execute_keeps_document_status by blast
qed

theorem document_status_default_and_writers_witness:
  "d_status (document_values ''u1'' (default_document ''d1'' 1))
     = d_status (default_document ''d1'' 1)
   \<and> insert_document ''d3'' 4 (document_values ''u1'') sample_database
       = Inr (sample_database\<lparr>documents_table :=
               [document1, document2, document_values ''u1'' (default_document ''d3'' 4)]\<rparr>)
   \<and> d_status (document_values ''u1'' (default_document ''d3'' 4)) = Some ''uploaded''
   \<and> list_all stores_valid_document_status sample_statements
   \<and> list_all document_status_valid (documents_table (run sample_statements))
   \<and> map d_status (documents_table sample_database) = [Some ''uploaded'', Some ''uploaded'']"
proof -
  have keep: "\<forall>r. d_status (document_values ''u1'' r) = d_status r"
    by (simp add: document_values_def)
  have new: "d_id (document_values ''u1'' (default_document ''d3'' 4)) = Some ''d3''"
            "d_user_id (document_values ''u1'' (default_document ''d3'' 4)) = Some ''u1''"
            "document_not_null (document_values ''u1'' (default_document ''d3'' 4))"
    by (simp_all add: document_values_def default_document_def document_not_null_def)
  have ins: "insert_document ''d3'' 4 (document_values ''u1'') sample_database
      = Inr (sample_database\<lparr>documents_table :=
               [document1, document2, document_values ''u1'' (default_document ''d3'' 4)]\<rparr>)"
    by (simp add: insert_document_def Let_def new sample_tables sample_keys unique_column_def
          foreign_key_def user_keys_def)
  have writers: "list_all stores_valid_document_status sample_statements"
    by (simp add: sample_statements_def document_status_valid_def document_values_def
          default_document_def)
  note t = document_status_default_and_writers
             [of "document_values ''u1''" "''d3''" 4 sample_database
                 "sample_database\<lparr>documents_table :=
                    [document1, document2, document_values ''u1'' (default_document ''d3'' 4)]\<rparr>"
                 sample_statements "DeleteAnalyses (is_analysis ''a1'')"]
  have st: "d_status (document_values ''u1'' (default_document ''d3'' 4)) = Some ''uploaded''"
    using t keep ins by simp
  have inv: "list_all document_status_valid (documents_table (run sample_statements))"
    using t writers by simp
  have old: "d_status document1 = Some ''uploaded''" "d_status document2 = Some ''uploaded''"
    by (simp_all add: document1_def document2_def document_values_def default_document_def)
  show ?thesis
    using keep ins st writers inv old by (simp add: sample_tables)
qed

subsection \<open>The status of an analysis and completed rows\<close>

lemma sample_analysis1:
  "a_status analysis1 = Some ''completed''" "a_summary analysis1 = Some ''A lease.''"
  "analysis_not_null analysis1" "a_user_rating analysis1 = None"
  by (simp_all add: analysis1_def completed_analysis_values_def analysis_values_def
        default_analysis_def analysis_not_null_def)

text \<open>
  Claim C5 as stated fails twice. The \<open>status\<close> column of \<open>analyses\<close> has a default
  and no constraint, and the store accepts an analysis whose status is none of the three
  values. No constraint or trigger of the schema protects a completed analysis, and the
  store accepts an UPDATE that rewrites its summary.
\<close>

theorem completed_analysis_counterexample:
  "run sample_statements = sample_database
   \<and> analyses_table sample_database = [analysis1, analysis2, analysis3]
   \<and> fst (execute (InsertAnalysis ''a9'' 5 archived_analysis_values) sample_database) = None
   \<and> map a_status (analyses_table
        (snd (execute (InsertAnalysis ''a9'' 5 archived_analysis_values) sample_database)))
       = [Some ''completed'', Some ''pending'', Some ''pending'', Some ''archived'']
   \<and> \<not> list_all analysis_status_valid (analyses_table
        (snd (execute (InsertAnalysis ''a9'' 5 archived_analysis_values) sample_database)))
   \<and> a_status analysis1 = Some ''completed''
   \<and> a_summary analysis1 = Some ''A lease.''
   \<and> execute (UpdateAnalyses 9 (is_analysis ''a1'') (set_summary ''Rewritten.'')) sample_database
       = (None, sample_database\<lparr>analyses_table :=
            [analysis1\<lparr>a_summary := Some ''Rewritten.'', a_updated_at := Some 9\<rparr>,
             analysis2, analysis3]\<rparr>)"
proof -
  have sel: "is_analysis ''a1'' analysis1" "\<not> is_analysis ''a1'' analysis2"
            "\<not> is_analysis ''a1'' analysis3"
    by (simp_all add: is_analysis_def sample_keys)
  have upd: "update_analyses 9 (is_analysis ''a1'') (set_summary ''Rewritten.'') sample_database
       = Inr (sample_database\<lparr>analyses_table :=
            [analysis1\<lparr>a_summary := Some ''Rewritten.'', a_updated_at := Some 9\<rparr>,
             analysis2, analysis3]\<rparr>)"
    using sample_analysis1(3)
    by (simp add: update_analyses_def Let_def sel sample_tables sample_keys set_summary_def
          analysis_not_null_def user_rating_check_iff rating_in_range_def sample_analysis1
          unique_column_def foreign_key_def user_keys_def document_keys_def)
  have new: "a_id (archived_analysis_values (default_analysis ''a9'' 5)) = Some ''a9''"
            "a_user_id (archived_analysis_values (default_analysis ''a9'' 5)) = Some ''u2''"
            "a_document_id (archived_analysis_values (default_analysis ''a9'' 5)) = Some ''d2''"
            "a_user_rating (archived_analysis_values (default_analysis ''a9'' 5)) = None"
            "a_status (archived_analysis_values (default_analysis ''a9'' 5)) = Some ''archived''"
            "analysis_not_null (archived_analysis_values (default_analysis ''a9'' 5))"
    by (simp_all add: archived_analysis_values_def analysis_values_def default_analysis_def
          analysis_not_null_def)
  have old: "a_status analysis2 = Some ''pending''" "a_status analysis3 = Some ''pending''"
    by (simp_all add: analysis2_def analysis3_def analysis_values_def default_analysis_def)
  have ins: "insert_analysis ''a9'' 5 archived_analysis_values sample_database
      = Inr (sample_database\<lparr>analyses_table :=
               [analysis1, analysis2, analysis3,
                archived_analysis_values (default_analysis ''a9'' 5)]\<rparr>)"
    by (simp add: insert_analysis_def Let_def new sample_tables sample_keys unique_column_def
          foreign_key_def user_keys_def document_keys_def user_rating_check_iff
          rating_in_range_def)
  show ?thesis
    by (simp add: sample_database_reached sample_tables sample_analysis1 upd ins outcome_def
          new old analysis_status_valid_def)
qed

text \<open>
  Claim C5, amended. An analysis inserted by a statement that names no status is stored
  with status \<open>pending\<close>. The store does not restrict the column: the status of every
  analysis is one of \<open>pending\<close>, \<open>completed\<close>, \<open>failed\<close> as long as every INSERT and
  UPDATE that stores a status stores one of them. The store does not protect a completed
  row either: every UPDATE it accepts is applied to each row it selects, whatever the
  status of the row, which becomes the row the assignment computes with \<open>updated_at\<close>
  set to the current time by the trigger; the rows not selected and the other tables stay
  as they were. So an accepted UPDATE that assigns only \<open>user_rating\<close> and
  \<open>user_feedback\<close> changes, in the rows it selects, these two columns and
  \<open>updated_at\<close>, and nothing else in the database.
\<close>

theorem analysis_status_default_and_feedback:
  "((\<forall>r. a_status (supplied r) = a_status r)
      \<and> insert_analysis gen now supplied db = Inr db' \<longrightarrow>
      (\<exists>new. analyses_table db' = analyses_table db @ [new]
         \<and> a_status new = Some ''pending''))
   \<and> (list_all stores_valid_analysis_status stmts \<longrightarrow>
        list_all analysis_status_valid (analyses_table (run stmts)))
   \<and> (stores_valid_analysis_status s \<and> list_all analysis_status_valid (analyses_table db) \<longrightarrow>
        list_all analysis_status_valid (analyses_table (snd (execute s db))))
   \<and> (update_analyses at wher setter db = Inr applied \<longrightarrow>
        analyses_table applied
          = map (\<lambda>r. if wher r then (setter r)\<lparr>a_updated_at := Some at\<rparr> else r)
              (analyses_table db)
        \<and> (\<forall>r \<in> set (analyses_table db).
              wher r \<and> a_status r = Some ''completed'' \<longrightarrow>
                (setter r)\<lparr>a_updated_at := Some at\<rparr> \<in> set (analyses_table applied))
        \<and> documents_table applied = documents_table db
        \<and> users_table applied = users_table db)
   \<and> (update_analyses at wher (set_feedback rating feedback) db = Inr db'' \<longrightarrow>
        analyses_table db''
          = map (\<lambda>r. if wher r
                      then r\<lparr>a_user_rating := rating, a_user_feedback := feedback,
                             a_updated_at := Some at\<rparr>
                      else r) (analyses_table db)
        \<and> documents_table db'' = documents_table db
        \<and> users_table db'' = users_table db)"
proof (intro conjI)
  show "update_analyses at wher setter db = Inr applied \<longrightarrow>
        analyses_table applied
          = map (\<lambda>r. if wher r then (setter r)\<lparr>a_updated_at := Some at\<rparr> else r)
              (analyses_table db)
        \<and> (\<forall>r \<in> set (analyses_table db).
              wher r \<and> a_status r = Some ''completed'' \<longrightarrow>
                (setter r)\<lparr>a_updated_at := Some at\<rparr> \<in> set (analyses_table applied))
        \<and> documents_table applied = documents_table db
        \<and> users_table applied = users_table db"
  proof
    assume "update_analyses at wher setter db = Inr applied"
    from update_analyses_Inr [OF this]
    have tab: "analyses_table applied
          = map (\<lambda>r. if wher r then (setter r)\<lparr>a_updated_at := Some at\<rparr> else r)
              (analyses_table db)"
      and rest: "documents_table applied = documents_table db"
                "users_table applied = users_table db"
      by simp_all
    have "\<forall>r \<in> set (analyses_table db).
              wher r \<and> a_status r = Some ''completed'' \<longrightarrow>
                (setter r)\<lparr>a_updated_at := Some at\<rparr> \<in> set (analyses_table applied)"
      unfolding tab by (auto simp: image_iff intro!: bexI)
    then show "analyses_table applied
          = map (\<lambda>r. if wher r then (setter r)\<lparr>a_updated_at := Some at\<rparr> else r)
              (analyses_table db)
        \<and> (\<forall>r \<in> set (analyses_table db).
              wher r \<and> a_status r = Some ''completed'' \<longrightarrow>
                (setter r)\<lparr>a_updated_at := Some at\<rparr> \<in> set (analyses_table applied))
        \<and> documents_table applied = documents_table db
        \<and> users_table applied = users_table db"
      using tab rest by blast
  qed
  show "(\<forall>r. a_status (supplied r) = a_status r)
      \<and> insert_analysis gen now supplied db = Inr db' \<longrightarrow>
      (\<exists>new. analyses_table db' = analyses_table db @ [new]
         \<and> a_status new = Some ''pending'')"
  proof
    assume h: "(\<forall>r. a_status (supplied r) = a_status r)
      \<and> insert_analysis gen now supplied db = Inr db'"
    then have "analyses_table db' = analyses_table db @ [supplied (default_analysis gen now)]"
      using insert_analysis_Inr [of gen now supplied db db'] by simp
    moreover have "a_status (supplied (default_analysis gen now)) = Some ''pending''"
      using h by (simp add: default_analysis_def)
    ultimately show "\<exists>new. analyses_table db' = analyses_table db @ [new]
         \<and> a_status new = Some ''pending''"
      by blast
  qed
  show "list_all stores_valid_analysis_status stmts \<longrightarrow>
        list_all analysis_status_valid (analyses_table (run stmts))"
    using analysis_status_run by blast
  show "stores_valid_analysis_status s \<and> list_all analysis_status_valid (analyses_table db) \<longrightarrow>
        list_all analysis_status_valid (analyses_table (snd (execute s db)))"
    using execute_keeps_analysis_status by blast
  show "update_analyses at wher (set_feedback rating feedback) db = Inr db'' \<longrightarrow>
        analyses_table db''
          = map (\<lambda>r. if wher r
                      then r\<lparr>a_user_rating := rating, a_user_feedback := feedback,
                             a_updated_at := Some at\<rparr>
                      else r) (analyses_table db)
        \<and> documents_table db'' = documents_table db
        \<and> users_table db'' = users_table db"
  proof
    assume "update_analyses at wher (set_feedback rating feedback) db = Inr db''"
    from update_analyses_Inr [OF this]
    show "analyses_table db''
          = map (\<lambda>r. if wher r
                      then r\<lparr>a_user_rating := rating, a_user_feedback := feedback,
                             a_updated_at := Some at\<rparr>
                      else r) (analyses_table db)
        \<and> documents_table db'' = documents_table db
        \<and> users_table db'' = users_table db"
      by (simp add: set_feedback_def)
  qed
qed

theorem analysis_status_default_and_feedback_witness:
  "insert_analysis ''a4'' 6 (analysis_values ''u2'' ''d2'') sample_database
       = Inr (sample_database\<lparr>analyses_table :=
               [analysis1, analysis2, analysis3,
                analysis_values ''u2'' ''d2'' (default_analysis ''a4'' 6)]\<rparr>)
   \<and> a_status (analysis_values ''u2'' ''d2'' (default_analysis ''a4'' 6)) = Some ''pending''
   \<and> list_all stores_valid_analysis_status sample_statements
   \<and> list_all analysis_status_valid (analyses_table (run sample_statements))
   \<and> a_status analysis1 = Some ''completed''
   \<and> update_analyses 9 (is_analysis ''a1'') (set_summary ''Rewritten.'') sample_database
       = Inr (sample_database\<lparr>analyses_table :=
               [analysis1\<lparr>a_summary := Some ''Rewritten.'', a_updated_at := Some 9\<rparr>,
                analysis2, analysis3]\<rparr>)
   \<and> update_analyses 8 (is_analysis ''a1'') (set_feedback (Some 4) (Some ''clear''))
         sample_database
       = Inr (sample_database\<lparr>analyses_table :=
               [analysis1\<lparr>a_user_rating := Some 4, a_user_feedback := Some ''clear'',
                          a_updated_at := Some 8\<rparr>, analysis2, analysis3]\<rparr>)"
proof -
  have keep: "\<forall>r. a_status (analysis_values ''u2'' ''d2'' r) = a_status r"
    by (simp add: analysis_values_def)
  have new: "a_id (analysis_values ''u2'' ''d2'' (default_analysis ''a4'' 6)) = Some ''a4''"
            "a_user_id (analysis_values ''u2'' ''d2'' (default_analysis ''a4'' 6)) = Some ''u2''"
            "a_document_id (analysis_values ''u2'' ''d2'' (default_analysis ''a4'' 6)) = Some ''d2''"
            "a_user_rating (analysis_values ''u2'' ''d2'' (default_analysis ''a4'' 6)) = None"
            "analysis_not_null (analysis_values ''u2'' ''d2'' (default_analysis ''a4'' 6))"
    by (simp_all add: analysis_values_def default_analysis_def analysis_not_null_def)
  have ins: "insert_analysis ''a4'' 6 (analysis_values ''u2'' ''d2'') sample_database
       = Inr (sample_database\<lparr>analyses_table :=
               [analysis1, analysis2, analysis3,
                analysis_values ''u2'' ''d2'' (default_analysis ''a4'' 6)]\<rparr>)"
    by (simp add: insert_analysis_def Let_def new sample_tables sample_keys unique_column_def
          foreign_key_def user_keys_def document_keys_def user_rating_check_iff
          rating_in_range_def)
  have writers: "list_all stores_valid_analysis_status sample_statements"
    by (simp add: sample_statements_def analysis_status_valid_def analysis_values_def
          completed_analysis_values_def default_analysis_def)
  have sel: "is_analysis ''a1'' analysis1" "\<not> is_analysis ''a1'' analysis2"
            "\<not> is_analysis ''a1'' analysis3"
    by (simp_all add: is_analysis_def sample_keys)
  have fb_not_null:
    "analysis_not_null ((set_feedback (Some 4) (Some ''clear'') analysis1)\<lparr>a_updated_at := Some 8\<rparr>)"
    using sample_analysis1(3) by (simp add: analysis_not_null_def set_feedback_def)
  have accepted: "\<exists>db''. update_analyses 8 (is_analysis ''a1'')
       (set_feedback (Some 4) (Some ''clear'')) sample_database = Inr db''"
    using fb_not_null
    by (simp add: update_analyses_def Let_def sel sample_tables sample_keys set_feedback_def
          user_rating_check_iff rating_in_range_def unique_column_def foreign_key_def
          user_keys_def document_keys_def)
  then obtain db'' where upd: "update_analyses 8 (is_analysis ''a1'')
       (set_feedback (Some 4) (Some ''clear'')) sample_database = Inr db''"
    by blast
  have sum: "update_analyses 9 (is_analysis ''a1'') (set_summary ''Rewritten.'') sample_database
       = Inr (sample_database\<lparr>analyses_table :=
            [analysis1\<lparr>a_summary := Some ''Rewritten.'', a_updated_at := Some 9\<rparr>,
             analysis2, analysis3]\<rparr>)"
    using sample_analysis1(3)
    by (simp add: update_analyses_def Let_def sel sample_tables sample_keys set_summary_def
          analysis_not_null_def user_rating_check_iff rating_in_range_def sample_analysis1
          unique_column_def foreign_key_def user_keys_def document_keys_def)
  have applied_row: "(set_summary ''Rewritten.'' analysis1)\<lparr>a_updated_at := Some 9\<rparr>
          \<in> set (analyses_table (sample_database\<lparr>analyses_table :=
            [analysis1\<lparr>a_summary := Some ''Rewritten.'', a_updated_at := Some 9\<rparr>,
             analysis2, analysis3]\<rparr>))"
    using analysis_status_default_and_feedback
            [where at = 9 and wher = "is_analysis ''a1''"
               and setter = "set_summary ''Rewritten.''" and db = sample_database
               and applied = "sample_database\<lparr>analyses_table :=
                   [analysis1\<lparr>a_summary := Some ''Rewritten.'', a_updated_at := Some 9\<rparr>,
                    analysis2, analysis3]\<rparr>"]
          sum sel sample_analysis1(1)
    by (simp add: sample_tables)
  note t = analysis_status_default_and_feedback
             [where supplied = "analysis_values ''u2'' ''d2''" and gen = "''a4''" and now = 6
                and db = sample_database
                and db' = "sample_database\<lparr>analyses_table :=
                    [analysis1, analysis2, analysis3,
                     analysis_values ''u2'' ''d2'' (default_analysis ''a4'' 6)]\<rparr>"
                and stmts = sample_statements and s = "DeleteAnalyses (is_analysis ''a1'')"
                and at = 8 and wher = "is_analysis ''a1''" and setter = "set_feedback None None"
                and applied = sample_database
                and rating = "Some 4" and feedback = "Some ''clear''" and db'' = db'']
  have st: "a_status (analysis_values ''u2'' ''d2'' (default_analysis ''a4'' 6)) = Some ''pending''"
    using t keep ins by simp
  have inv: "list_all analysis_status_valid (analyses_table (run sample_statements))"
    using t writers by simp
  have tabs: "analyses_table db''
      = [analysis1\<lparr>a_user_rating := Some 4, a_user_feedback := Some ''clear'',
                   a_updated_at := Some 8\<rparr>, analysis2, analysis3]"
    "documents_table db'' = documents_table sample_database"
    "users_table db'' = users_table sample_database"
    using t upd sel by (simp_all add: sample_tables)
  have "db'' = sample_database\<lparr>analyses_table :=
               [analysis1\<lparr>a_user_rating := Some 4, a_user_feedback := Some ''clear'',
                          a_updated_at := Some 8\<rparr>, analysis2, analysis3]\<rparr>"
    using tabs by (cases db'') (simp add: sample_database_def)
  then show ?thesis
    using ins st writers inv upd sum applied_row sample_analysis1(1) by simp
qed

section \<open>Properties of the analysis request\<close>

lemma scoped_lookup_none:
  "get_document_scoped_to_owner document_id owner db = None \<longleftrightarrow>
   (\<forall>d \<in> set (documents_table db). d_id d = Some document_id \<longrightarrow> d_user_id d \<noteq> Some owner)"
  by (auto simp: get_document_scoped_to_owner_def find_None_iff)

text \<open>
  Claim C2. When no document with the requested id is owned by the caller, whether because
  there is no such document or because it belongs to another user, the analysis request
  answers NotFoundOrForbidden, status 404, whatever the later steps would return, and
  leaves the database as it was. The answer to a request on a document of another user
  equals the answer on a database without that document.
\<close>

theorem analysis_request_not_owned:
  "((\<forall>d \<in> set (documents_table db). d_id d = Some document_id \<longrightarrow> d_user_id d \<noteq> Some caller)
      \<longrightarrow> analysis_request steps caller document_id db = (Inl NotFoundOrForbidden, db))
   \<and> http_status NotFoundOrForbidden = 404
   \<and> ((\<forall>d \<in> set (documents_table absent). d_id d \<noteq> Some document_id)
       \<and> (\<exists>d \<in> set (documents_table foreign). d_id d = Some document_id)
       \<and> (\<forall>d \<in> set (documents_table foreign).
             d_id d = Some document_id \<longrightarrow> d_user_id d \<noteq> Some caller)
      \<longrightarrow> fst (analysis_request steps caller document_id absent)
          = fst (analysis_request steps caller document_id foreign))"
proof (intro conjI)
  show not_owned:
    "(\<forall>d \<in> set (documents_table db). d_id d = Some document_id \<longrightarrow> d_user_id d \<noteq> Some caller)
      \<longrightarrow> analysis_request steps caller document_id db = (Inl NotFoundOrForbidden, db)"
    for db
  proof
    assume "\<forall>d \<in> set (documents_table db).
        d_id d = Some document_id \<longrightarrow> d_user_id d \<noteq> Some caller"
    then have "get_document_scoped_to_owner document_id caller db = None"
      by (simp add: scoped_lookup_none)
    then show "analysis_request steps caller document_id db = (Inl NotFoundOrForbidden, db)"
      by (simp add: analysis_request_def)
  qed
  show "http_status NotFoundOrForbidden = 404"
    by (simp add: http_status_def)
  show "(\<forall>d \<in> set (documents_table absent). d_id d \<noteq> Some document_id)
       \<and> (\<exists>d \<in> set (documents_table foreign). d_id d = Some document_id)
       \<and> (\<forall>d \<in> set (documents_table foreign).
             d_id d = Some document_id \<longrightarrow> d_user_id d \<noteq> Some caller)
      \<longrightarrow> fst (analysis_request steps caller document_id absent)
          = fst (analysis_request steps caller document_id foreign)"
    using not_owned [of absent] not_owned [of foreign] by auto
qed

theorem analysis_request_not_owned_witness:
  "map d_id (documents_table sample_database) = [Some ''d1'', Some ''d2'']
   \<and> map d_user_id (documents_table sample_database) = [Some ''u1'', Some ''u2'']
   \<and> analysis_request disclosing_steps ''u2'' ''d1'' sample_database
       = (Inl NotFoundOrForbidden, sample_database)
   \<and> analysis_request disclosing_steps ''u2'' ''d7'' sample_database
       = (Inl NotFoundOrForbidden, sample_database)
   \<and> fst (analysis_request disclosing_steps ''u2'' ''d1'' empty_database)
       = fst (analysis_request disclosing_steps ''u2'' ''d1'' sample_database)
   \<and> fst (analysis_request disclosing_steps ''u1'' ''d1'' sample_database) = Inr document1"
proof -
  have other: "analysis_request disclosing_steps ''u2'' ''d1'' sample_database
       = (Inl NotFoundOrForbidden, sample_database)"
    using analysis_request_not_owned
            [of sample_database "''d1''" "''u2''" disclosing_steps empty_database sample_database]
    by (simp add: sample_tables sample_keys)
  have missing: "analysis_request disclosing_steps ''u2'' ''d7'' sample_database
       = (Inl NotFoundOrForbidden, sample_database)"
    using analysis_request_not_owned
            [of sample_database "''d7''" "''u2''" disclosing_steps empty_database sample_database]
    by (simp add: sample_tables sample_keys)
  have same: "fst (analysis_request disclosing_steps ''u2'' ''d1'' empty_database)
       = fst (analysis_request disclosing_steps ''u2'' ''d1'' sample_database)"
    using analysis_request_not_owned
            [of sample_database "''d1''" "''u2''" disclosing_steps empty_database sample_database]
    by (simp add: sample_tables sample_keys empty_database_def)
  have own: "fst (analysis_request disclosing_steps ''u1'' ''d1'' sample_database) = Inr document1"
    by (simp add: analysis_request_def get_document_scoped_to_owner_def sample_tables
          sample_keys disclosing_steps_def)
  show ?thesis
    using other missing same own by (simp add: sample_tables sample_keys)
qed

end
